theory Spec2Isabelle
  imports Complex_Main
begin

section \<open>JavaScript values shared by the services\<close>

text \<open>
  A value that reaches a \<^verbatim>\<open>catch\<close> clause. The services read it with
  \<^verbatim>\<open>error instanceof Error ? error.message : String(error)\<close>, so a thrown value is
  either an \<^verbatim>\<open>Error\<close> with its message, or some other value with its string
  conversion.
\<close>

datatype thrown = Error string | NonError string

fun thrown_message :: "thrown \<Rightarrow> string" where
  "thrown_message (Error m) = m"
| "thrown_message (NonError s) = s"

text \<open>
  Reading \<^verbatim>\<open>obj[key]\<close> on an object literal finds the literal's own property, or a
  member inherited from \<^verbatim>\<open>Object.prototype\<close> (a function or an object, always
  truthy), or \<^verbatim>\<open>undefined\<close>.
\<close>

datatype 'a js_prop = Own 'a | Inherited string | Missing

definition Object_prototype_keys :: "string list" where
  "Object_prototype_keys =
     [''constructor'', ''__defineGetter__'', ''__defineSetter__'', ''hasOwnProperty'',
      ''__lookupGetter__'', ''__lookupSetter__'', ''isPrototypeOf'',
      ''propertyIsEnumerable'', ''toString'', ''valueOf'', ''__proto__'',
      ''toLocaleString'']"

definition record_lookup :: "(string \<times> 'a) list \<Rightarrow> string \<Rightarrow> 'a js_prop" where
  "record_lookup obj k =
     (case map_of obj k of
        Some v \<Rightarrow> Own v
      | None \<Rightarrow> if List.member Object_prototype_keys k then Inherited k else Missing)"

section \<open>Content provider: \<^verbatim>\<open>src/services/supabaseService.ts\<close>\<close>

record ThemeData =
  theme_id :: string
  theme_name :: string
  theme_description :: string

definition THEME_CATEGORIES :: "ThemeData list" where
  "THEME_CATEGORIES =
     [\<lparr>theme_id = ''safety'', theme_name = ''Safety'',
        theme_description = ''Dosage, side effects, contraindications''\<rparr>,
      \<lparr>theme_id = ''efficacy'', theme_name = ''Efficacy'',
        theme_description = ''Clinical outcomes and effectiveness''\<rparr>,
      \<lparr>theme_id = ''brand'', theme_name = ''Brand'',
        theme_description = ''Brand identity and messaging''\<rparr>,
      \<lparr>theme_id = ''mechanism'', theme_name = ''Mechanism of Action'',
        theme_description = ''How the drug works''\<rparr>,
      \<lparr>theme_id = ''patient'', theme_name = ''Patient Focus'',
        theme_description = ''Patient benefits and quality of life''\<rparr>]"

definition known_theme_ids :: "string list" where
  "known_theme_ids = map theme_id THEME_CATEGORIES"

text \<open>
  The section a component belongs to is a string, except when the section looked up for an
  identifier such as \<^verbatim>\<open>constructor\<close> is a member of \<^verbatim>\<open>Object.prototype\<close>.
\<close>

datatype section_value = SectionName string | InheritedMember string

record ComponentData =
  comp_id :: string
  comp_name :: string
  comp_content :: string
  comp_section :: section_value

text \<open>What \<^verbatim>\<open>fetchThemeComponents\<close> hands to its caller: an array of components, or
  (for an identifier that names a member of \<^verbatim>\<open>Object.prototype\<close>) that member, or
  \<^verbatim>\<open>undefined\<close>.\<close>

datatype components_value = Components "ComponentData list" | InheritedValue string | Undefined

text \<open>A row of the table \<^verbatim>\<open>component_config\<close>; the columns \<^verbatim>\<open>description\<close> and
  \<^verbatim>\<open>section\<close> may be null.\<close>

record db_row =
  row_id :: string
  row_name :: string
  row_description :: "string option"
  row_section :: "string option"

text \<open>The awaited query either throws, or yields \<^verbatim>\<open>{ data, error }\<close> where
  \<^verbatim>\<open>data\<close> is null or an array and \<^verbatim>\<open>error\<close> is null or an object with a message.\<close>

datatype query_outcome =
    QueryThrows thrown
  | QueryReturns "db_row list option" "string option"

definition sectionMap :: "(string \<times> string) list" where
  "sectionMap =
     [(''safety'', ''Safety''), (''efficacy'', ''Evidence''), (''brand'', ''Brand''),
      (''mechanism'', ''Solution''), (''patient'', ''Insight'')]"

definition section_for :: "string \<Rightarrow> section_value" where
  \<comment> \<open>\<^verbatim>\<open>sectionMap[themeId] || 'Safety'\<close>\<close>
  "section_for themeId =
     (case record_lookup sectionMap themeId of
        Own s \<Rightarrow> if s = [] then SectionName ''Safety'' else SectionName s
      | Inherited k \<Rightarrow> InheritedMember k
      | Missing \<Rightarrow> SectionName ''Safety'')"

definition fallbackData :: "(string \<times> ComponentData list) list" where
  "fallbackData =
     [(''safety'',
        [\<lparr>comp_id = ''SAFE_01'', comp_name = ''Dosage Information'',
           comp_content = ''Recommended dosage and administration guidelines'',
           comp_section = SectionName ''Safety''\<rparr>,
         \<lparr>comp_id = ''SAFE_02'', comp_name = ''Strength/Form'',
           comp_content = ''Available strengths and formulations'',
           comp_section = SectionName ''Safety''\<rparr>,
         \<lparr>comp_id = ''SAFE_03'', comp_name = ''Safety Claims'',
           comp_content = ''Key safety profile and tolerability data'',
           comp_section = SectionName ''Safety''\<rparr>,
         \<lparr>comp_id = ''SAFE_04'', comp_name = ''Side Effects'',
           comp_content = ''Common and rare adverse reactions'',
           comp_section = SectionName ''Safety''\<rparr>,
         \<lparr>comp_id = ''SAFE_05'', comp_name = ''Contraindications'',
           comp_content = ''When not to use this medication'',
           comp_section = SectionName ''Safety''\<rparr>]),
      (''efficacy'',
        [\<lparr>comp_id = ''EVID_01'', comp_name = ''Efficacy Claim'',
           comp_content = ''Primary efficacy endpoints and outcomes'',
           comp_section = SectionName ''Evidence''\<rparr>,
         \<lparr>comp_id = ''EVID_02'', comp_name = ''Chart Data'',
           comp_content = ''Clinical trial results visualization'',
           comp_section = SectionName ''Evidence''\<rparr>,
         \<lparr>comp_id = ''EVID_03'', comp_name = ''Study Summary'',
           comp_content = ''Key clinical study highlights'',
           comp_section = SectionName ''Evidence''\<rparr>]),
      (''brand'',
        [\<lparr>comp_id = ''INIT_01a'', comp_name = ''Brand Root Name'',
           comp_content = ''Primary brand identifier'',
           comp_section = SectionName ''Brand''\<rparr>,
         \<lparr>comp_id = ''INIT_03'', comp_name = ''Main Headline'',
           comp_content = ''Primary marketing message'',
           comp_section = SectionName ''Brand''\<rparr>,
         \<lparr>comp_id = ''INIT_06'', comp_name = ''Tagline'',
           comp_content = ''Brand positioning statement'',
           comp_section = SectionName ''Brand''\<rparr>]),
      (''mechanism'',
        [\<lparr>comp_id = ''SOL_01'', comp_name = ''USP/Claims'',
           comp_content = ''Unique selling proposition'',
           comp_section = SectionName ''Solution''\<rparr>,
         \<lparr>comp_id = ''SOL_03'', comp_name = ''MOA Diagram'',
           comp_content = ''Mechanism of action visualization'',
           comp_section = SectionName ''Solution''\<rparr>]),
      (''patient'',
        [\<lparr>comp_id = ''INS_01'', comp_name = ''Target Patient'',
           comp_content = ''Ideal patient profile'',
           comp_section = SectionName ''Insight''\<rparr>,
         \<lparr>comp_id = ''INS_02'', comp_name = ''Disease Update'',
           comp_content = ''Current disease landscape'',
           comp_section = SectionName ''Insight''\<rparr>])]"

definition fallback_value :: "ComponentData list js_prop \<Rightarrow> components_value" where
  \<comment> \<open>the value of \<^verbatim>\<open>fallbackData[key]\<close>\<close>
  "fallback_value p =
     (case p of Own xs \<Rightarrow> Components xs
      | Inherited k \<Rightarrow> InheritedValue k
      | Missing \<Rightarrow> Undefined)"

definition getFallbackComponents :: "string \<Rightarrow> components_value" where
  \<comment> \<open>\<^verbatim>\<open>fallbackData[themeId] || fallbackData['safety']\<close>: an array and an inherited
      member are truthy, \<^verbatim>\<open>undefined\<close> is not\<close>
  "getFallbackComponents themeId =
     (case fallback_value (record_lookup fallbackData themeId) of
        Undefined \<Rightarrow> fallback_value (record_lookup fallbackData ''safety'')
      | v \<Rightarrow> v)"

definition map_row :: "section_value \<Rightarrow> db_row \<Rightarrow> ComponentData" where
  \<comment> \<open>the callback of \<^verbatim>\<open>data.map\<close>\<close>
  "map_row section item =
     \<lparr>comp_id = row_id item,
      comp_name = row_name item,
      comp_content = (case row_description item of Some d \<Rightarrow> d | None \<Rightarrow> []),
      comp_section =
        (case row_section item of
           Some s \<Rightarrow> if s = [] then section else SectionName s
         | None \<Rightarrow> section)\<rparr>"

definition fetchThemeComponents_try ::
  "(section_value \<Rightarrow> query_outcome) \<Rightarrow> string \<Rightarrow> thrown + components_value" where
  \<comment> \<open>the body of the \<^verbatim>\<open>try\<close> block\<close>
  "fetchThemeComponents_try query themeId =
     (let section = section_for themeId in
      case query section of
        QueryThrows e \<Rightarrow> Inl e
      | QueryReturns data err \<Rightarrow>
          (case err of
             Some _ \<Rightarrow> Inr (getFallbackComponents themeId)
           | None \<Rightarrow>
               (case data of
                  None \<Rightarrow> Inr (getFallbackComponents themeId)
                | Some rows \<Rightarrow>
                    if length rows > 0 then Inr (Components (map (map_row section) rows))
                    else Inr (getFallbackComponents themeId))))"

definition fetchThemeComponents ::
  "(section_value \<Rightarrow> query_outcome) \<Rightarrow> string \<Rightarrow> thrown + components_value" where
  \<comment> \<open>\<open>Inl\<close> would be an exception reaching the caller\<close>
  "fetchThemeComponents query themeId =
     (case fetchThemeComponents_try query themeId of
        Inl _ \<Rightarrow> Inr (getFallbackComponents themeId)
      | Inr v \<Rightarrow> Inr v)"

definition query_failed :: "query_outcome \<Rightarrow> bool" where
  "query_failed q =
     (case q of QueryThrows _ \<Rightarrow> True
      | QueryReturns _ err \<Rightarrow> (case err of Some _ \<Rightarrow> True | None \<Rightarrow> False))"

definition safety_fallback :: "ComponentData list" where
  "safety_fallback = (case map_of fallbackData ''safety'' of Some xs \<Rightarrow> xs | None \<Rightarrow> [])"

section \<open>Video pipeline: the video service (\<^verbatim>\<open>generateVideo\<close> and its helpers)\<close>

subsection \<open>Strings\<close>

fun starts_with :: "string \<Rightarrow> string \<Rightarrow> bool" where
  "starts_with s [] = True"
| "starts_with [] (c # cs) = False"
| "starts_with (x # xs) (c # cs) = (x = c \<and> starts_with xs cs)"

fun str_includes :: "string \<Rightarrow> string \<Rightarrow> bool" where
  \<comment> \<open>\<^verbatim>\<open>s.includes(needle)\<close>\<close>
  "str_includes [] needle = (needle = [])"
| "str_includes (x # xs) needle = (starts_with (x # xs) needle \<or> str_includes xs needle)"

definition truthy :: "string option \<Rightarrow> bool" where
  \<comment> \<open>an optional string in a condition: \<^verbatim>\<open>undefined\<close> and \<^verbatim>\<open>''\<close> are falsy\<close>
  "truthy v = (case v of None \<Rightarrow> False | Some s \<Rightarrow> s \<noteq> [])"

definition string_of :: "string option \<Rightarrow> string" where
  \<comment> \<open>the string of an optional string that passed a truthiness test\<close>
  "string_of v = (case v of None \<Rightarrow> [] | Some s \<Rightarrow> s)"

definition js_or :: "string option \<Rightarrow> string option \<Rightarrow> string option" where
  \<comment> \<open>\<^verbatim>\<open>a || b\<close>\<close>
  "js_or a b = (if truthy a then a else b)"

subsection \<open>Results, requests and the provider's answers\<close>

datatype result_status = Completed | Pending | Failed

record VideoGenerationResult =
  videoUrl :: string
  status :: result_status
  operationName :: "string option"
  error :: "string option"

record VideoGenerationConfig =
  prompt :: string
  durationSeconds :: "nat option"
  aspectRatio :: "string option"

text \<open>The argument of \<^verbatim>\<open>genAI.models.generateVideos\<close>.\<close>

record submit_request =
  model :: string
  req_prompt :: string
  req_aspectRatio :: string
  numberOfVideos :: nat
  personGeneration :: string

text \<open>\<^verbatim>\<open>{ video?: { uri?: string } }\<close>, an element of \<^verbatim>\<open>generatedVideos\<close>.\<close>

record video_ref =
  uri :: "string option"

record generated_video =
  video :: "video_ref option"

definition first_uri :: "generated_video list option \<Rightarrow> string option" where
  \<comment> \<open>\<^verbatim>\<open>xs?.[0]?.video?.uri\<close>\<close>
  "first_uri xs =
     (case xs of
        None \<Rightarrow> None
      | Some [] \<Rightarrow> None
      | Some (g # _) \<Rightarrow> (case video g of None \<Rightarrow> None | Some v \<Rightarrow> uri v))"

text \<open>
  The response of a finished operation. \<open>json_text\<close> is what \<^verbatim>\<open>JSON.stringify\<close> prints
  for the object; the object may carry fields the pipeline never reads.
\<close>

record sample_response =
  generatedSamples :: "generated_video list option"

record video_response =
  generatedVideos :: "generated_video list option"
  generateVideoResponse :: "sample_response option"
  json_text :: string

datatype js_response = RespUndefined | RespNull | Resp video_response

definition response_uri :: "js_response \<Rightarrow> string option" where
  \<comment> \<open>\<^verbatim>\<open>result?.generatedVideos?.[0]?.video?.uri\<close>\<close>
  "response_uri r = (case r of Resp v \<Rightarrow> first_uri (generatedVideos v) | _ \<Rightarrow> None)"

definition response_sample_uri :: "js_response \<Rightarrow> string option" where
  \<comment> \<open>\<^verbatim>\<open>result?.generateVideoResponse?.generatedSamples?.[0]?.video?.uri\<close>\<close>
  "response_sample_uri r =
     (case r of
        Resp v \<Rightarrow>
          (case generateVideoResponse v of
             None \<Rightarrow> None
           | Some g \<Rightarrow> first_uri (generatedSamples g))
      | _ \<Rightarrow> None)"

definition stringify_response :: "js_response \<Rightarrow> string option" where
  \<comment> \<open>\<^verbatim>\<open>JSON.stringify(result)\<close>: \<^verbatim>\<open>undefined\<close> for \<^verbatim>\<open>undefined\<close>\<close>
  "stringify_response r =
     (case r of RespUndefined \<Rightarrow> None | RespNull \<Rightarrow> Some ''null'' | Resp v \<Rightarrow> Some (json_text v))"

record operation_error =
  err_message :: "string option"

text \<open>What one status query reports: \<^verbatim>\<open>{ done, error?, response? }\<close>.\<close>

record operation_status =
  op_done :: bool
  op_error :: "operation_error option"
  response :: js_response

text \<open>One REST query of \<^verbatim>\<open>pollForVideo\<close>: \<^verbatim>\<open>fetch\<close> or \<^verbatim>\<open>response.json()\<close> throws,
  the response is not ok (with its status), or the body is read.\<close>

datatype rest_poll = PollThrows thrown | PollNotOk string | PollData operation_status

text \<open>The asset fetch of \<^verbatim>\<open>fetchVideoAsBlob\<close>: \<^verbatim>\<open>fetch\<close> throws, the response is not
  ok (status and status text, as printed), or \<^verbatim>\<open>response.blob()\<close> throws or yields a blob,
  named here by the identifier the browser gives its object URL.\<close>

datatype asset_fetch = FetchThrows thrown | FetchNotOk string string | FetchOk "thrown + string"

text \<open>
  The object \<^verbatim>\<open>generateVideos\<close> resolves to. \<open>op_wait\<close> is present when
  \<^verbatim>\<open>typeof operation.wait === 'function'\<close>, \<open>op_result\<close> when
  \<^verbatim>\<open>operation.result !== undefined\<close>, \<open>op_then\<close> when \<^verbatim>\<open>typeof operation.then === 'function'\<close>;
  each holds what awaiting it gives.
\<close>

record video_operation =
  op_name :: "string option"
  op_wait :: "(thrown + js_response) option"
  op_result :: "(thrown + js_response) option"
  op_then :: "(thrown + js_response) option"
  op_generatedVideos :: "generated_video list option"
  op_json :: string

text \<open>The world the pipeline talks to. Queries are indexed by the attempt they answer.\<close>

record veo_env =
  generateVideos :: "submit_request \<Rightarrow> thrown + video_operation"
  operations_get :: "string \<Rightarrow> nat \<Rightarrow> thrown + operation_status"
  fetch_poll :: "string \<Rightarrow> nat \<Rightarrow> rest_poll"
  fetch_asset :: "string \<Rightarrow> asset_fetch"
  apiKey :: string

subsection \<open>\<^verbatim>\<open>fetchVideoAsBlob\<close>\<close>

definition createObjectURL :: "string \<Rightarrow> string" where
  \<comment> \<open>\<^verbatim>\<open>URL.createObjectURL\<close>: a browser's object URL is \<^verbatim>\<open>blob:\<close> and an identifier\<close>
  "createObjectURL blob = ''blob:'' @ blob"

definition urlWithKey :: "string \<Rightarrow> string \<Rightarrow> string" where
  "urlWithKey key videoUri =
     (if str_includes videoUri ''key='' then videoUri
      else videoUri @ (if str_includes videoUri ''?'' then ''&'' else ''?'') @ ''key='' @ key)"

definition fetchVideoAsBlob :: "veo_env \<Rightarrow> string \<Rightarrow> thrown + string" where
  "fetchVideoAsBlob env videoUri =
     (case fetch_asset env (urlWithKey (apiKey env) videoUri) of
        FetchThrows e \<Rightarrow> Inl e
      | FetchNotOk st txt \<Rightarrow> Inl (Error (''Failed to fetch video: '' @ st @ '' '' @ txt))
      | FetchOk b \<Rightarrow> (case b of Inl e \<Rightarrow> Inl e | Inr blob \<Rightarrow> Inr (createObjectURL blob)))"

subsection \<open>Polling\<close>

definition maxAttempts :: nat where
  "maxAttempts = 120"

definition poll_url :: "string \<Rightarrow> string \<Rightarrow> string" where
  "poll_url key opName =
     ''https://generativelanguage.googleapis.com/v1beta/'' @ opName @ ''?key='' @ key"

text \<open>
  The \<^verbatim>\<open>for\<close> loop of \<^verbatim>\<open>pollForVideo\<close> from a given attempt on. The second component
  counts the queries sent. The \<^verbatim>\<open>throw\<close> for a finished operation with an error stands
  inside the loop's own \<^verbatim>\<open>try\<close>, so the \<^verbatim>\<open>catch\<close> of the same iteration takes it and
  the loop goes on.
\<close>

function pollForVideo_from :: "veo_env \<Rightarrow> string \<Rightarrow> nat \<Rightarrow> js_response \<times> nat" where
  "pollForVideo_from env opName attempt =
     (if attempt < maxAttempts then
        (case fetch_poll env (poll_url (apiKey env) opName) attempt of
           PollThrows e \<Rightarrow> pollForVideo_from env opName (Suc attempt)
         | PollNotOk st \<Rightarrow> pollForVideo_from env opName (Suc attempt)
         | PollData d \<Rightarrow>
             if op_done d then
               (case op_error d of
                  Some err \<Rightarrow> pollForVideo_from env opName (Suc attempt)
                | None \<Rightarrow> (response d, Suc attempt))
             else pollForVideo_from env opName (Suc attempt))
      else (RespNull, attempt))"
  by pat_completeness auto
termination
  by (relation "measure (\<lambda>(env, opName, attempt). maxAttempts - attempt)") auto

definition pollForVideo :: "veo_env \<Rightarrow> string \<Rightarrow> js_response" where
  "pollForVideo env opName = fst (pollForVideo_from env opName 0)"

definition or_default :: "string option \<Rightarrow> string \<Rightarrow> string" where
  \<comment> \<open>\<^verbatim>\<open>s || d\<close> for a default \<open>d\<close> that is a string\<close>
  "or_default s d = (case s of None \<Rightarrow> d | Some m \<Rightarrow> if m = [] then d else m)"

definition status_result :: "string \<Rightarrow> operation_status \<Rightarrow> VideoGenerationResult" where
  \<comment> \<open>what \<^verbatim>\<open>pollOperationSDK\<close> returns for a query that reports \<^verbatim>\<open>done\<close>\<close>
  "status_result opName operation =
     (let u = response_uri (response operation) in
      if truthy u then
        \<lparr>videoUrl = string_of u, status = Completed, operationName = Some opName,
         error = None\<rparr>
      else
        (case op_error operation of
           Some err \<Rightarrow>
             \<lparr>videoUrl = [], status = Failed, operationName = Some opName,
              error = Some (or_default (err_message err) ''Operation failed'')\<rparr>
         | None \<Rightarrow>
             \<lparr>videoUrl = [], status = Failed, operationName = Some opName,
              error = Some ''No video in completed operation''\<rparr>))"

text \<open>The \<^verbatim>\<open>while\<close> loop of \<^verbatim>\<open>pollOperationSDK\<close> from a given value of
  \<^verbatim>\<open>attempts\<close> on, with the number of queries sent.\<close>

function pollOperationSDK_from :: "veo_env \<Rightarrow> string \<Rightarrow> nat \<Rightarrow> VideoGenerationResult \<times> nat" where
  "pollOperationSDK_from env opName attempts =
     (if attempts < maxAttempts then
        (case operations_get env opName attempts of
           Inl e \<Rightarrow> pollOperationSDK_from env opName (Suc attempts)
         | Inr operation \<Rightarrow>
             if op_done operation then (status_result opName operation, Suc attempts)
             else pollOperationSDK_from env opName (Suc attempts))
      else
        (\<lparr>videoUrl = [], status = Pending, operationName = Some opName,
          error = Some ''Video generation timed out after 10 minutes''\<rparr>, attempts))"
  by pat_completeness auto
termination
  by (relation "measure (\<lambda>(env, opName, attempts). maxAttempts - attempts)") auto

definition pollOperationSDK :: "veo_env \<Rightarrow> string \<Rightarrow> VideoGenerationResult" where
  "pollOperationSDK env opName = fst (pollOperationSDK_from env opName 0)"

subsection \<open>\<^verbatim>\<open>generateVideo\<close>\<close>

text \<open>
  The file of the video service holds two copies of the service. This is the later one,
  which waits on the operation or polls over REST with \<^verbatim>\<open>pollForVideo\<close>; in it
  \<^verbatim>\<open>pollOperationSDK\<close> is kept, marked deprecated, and never called.
\<close>

definition primary_request :: "string \<Rightarrow> string \<Rightarrow> submit_request" where
  "primary_request p ratio =
     \<lparr>model = ''veo-3.1-fast-generate-preview'', req_prompt = p, req_aspectRatio = ratio,
      numberOfVideos = 1, personGeneration = ''allow_all''\<rparr>"

definition fallback_request :: "string \<Rightarrow> string \<Rightarrow> submit_request" where
  "fallback_request p ratio =
     \<lparr>model = ''veo-3.0-generate'', req_prompt = p, req_aspectRatio = ratio,
      numberOfVideos = 1, personGeneration = ''allow_adult''\<rparr>"

text \<open>
  The inner \<^verbatim>\<open>try\<close> of \<^verbatim>\<open>generateVideo\<close>: the submission, with the requests sent, in
  order. \<open>Inl\<close> is the value thrown on to the outer \<^verbatim>\<open>catch\<close>.
\<close>

definition submit_with_fallback ::
  "veo_env \<Rightarrow> submit_request \<Rightarrow> submit_request \<Rightarrow> submit_request list \<times> (thrown + video_operation)" where
  "submit_with_fallback env first second =
     (case generateVideos env first of
        Inr operation \<Rightarrow> ([first], Inr operation)
      | Inl sdkError \<Rightarrow>
          (case generateVideos env second of
             Inr operation \<Rightarrow> ([first, second], Inr operation)
           | Inl altError \<Rightarrow> ([first, second], Inl sdkError)))"

definition aspect_of :: "VideoGenerationConfig \<Rightarrow> string" where
  \<comment> \<open>\<^verbatim>\<open>aspectRatio = '16:9'\<close> in the destructuring\<close>
  "aspect_of config = (case aspectRatio config of None \<Rightarrow> ''16:9'' | Some r \<Rightarrow> r)"

definition submit_video ::
  "veo_env \<Rightarrow> VideoGenerationConfig \<Rightarrow> submit_request list \<times> (thrown + video_operation)" where
  "submit_video env config =
     submit_with_fallback env
       (primary_request (prompt config) (aspect_of config))
       (fallback_request (prompt config) (aspect_of config))"

definition await_operation :: "veo_env \<Rightarrow> video_operation \<Rightarrow> string \<Rightarrow> thrown + js_response" where
  \<comment> \<open>the four ways \<^verbatim>\<open>generateVideo\<close> waits for the result, in the source's order\<close>
  "await_operation env operation nm =
     (case op_wait operation of
        Some r \<Rightarrow> r
      | None \<Rightarrow>
          (case op_result operation of
             Some r \<Rightarrow> r
           | None \<Rightarrow>
               (case op_then operation of
                  Some r \<Rightarrow> r
                | None \<Rightarrow> Inr (pollForVideo env nm))))"

definition no_video_message :: "js_response \<Rightarrow> string" where
  "no_video_message result =
     ''No video in completed operation: '' @
       take 400 (or_default (stringify_response result) ''undefined'')"

definition operation_result :: "veo_env \<Rightarrow> video_operation \<Rightarrow> string \<Rightarrow> thrown + VideoGenerationResult" where
  \<comment> \<open>the branch \<^verbatim>\<open>if (operation?.name)\<close>, where \<open>nm\<close> is that name\<close>
  "operation_result env operation nm =
     (case await_operation env operation nm of
        Inl e \<Rightarrow> Inl e
      | Inr result \<Rightarrow>
          (let videoUri = js_or (response_uri result) (response_sample_uri result) in
           if truthy videoUri then
             (case fetchVideoAsBlob env (string_of videoUri) of
                Inl e \<Rightarrow> Inl e
              | Inr blobUrl \<Rightarrow>
                  Inr \<lparr>videoUrl = blobUrl, status = Completed, operationName = Some nm,
                       error = None\<rparr>)
           else
             Inr \<lparr>videoUrl = [], status = Failed, operationName = Some nm,
                  error = Some (no_video_message result)\<rparr>))"

definition immediate_result :: "video_operation \<Rightarrow> VideoGenerationResult" where
  \<comment> \<open>the code after the branch: an immediate result, or an unexpected response\<close>
  "immediate_result operation =
     (let u = first_uri (op_generatedVideos operation) in
      if truthy u then
        \<lparr>videoUrl = string_of u, status = Completed, operationName = None, error = None\<rparr>
      else
        \<lparr>videoUrl = [], status = Failed, operationName = None,
         error = Some (''Unexpected SDK response: '' @ take 400 (op_json operation))\<rparr>)"

definition generateVideo_try :: "veo_env \<Rightarrow> VideoGenerationConfig \<Rightarrow> thrown + VideoGenerationResult" where
  \<comment> \<open>the body of the outer \<^verbatim>\<open>try\<close>\<close>
  "generateVideo_try env config =
     (case snd (submit_video env config) of
        Inl e \<Rightarrow> Inl e
      | Inr operation \<Rightarrow>
          if truthy (op_name operation)
          then operation_result env operation (string_of (op_name operation))
          else Inr (immediate_result operation))"

definition not_available_prefix :: string where
  "not_available_prefix =
     ''Veo API not available via SDK. The model may require Vertex AI authentication or Google AI Studio web interface. Error: ''"

definition generateVideo_catch :: "thrown \<Rightarrow> VideoGenerationResult" where
  \<comment> \<open>the outer \<^verbatim>\<open>catch\<close>\<close>
  "generateVideo_catch e =
     (let errorMsg = thrown_message e in
      if str_includes errorMsg ''predictLongRunning'' \<or> str_includes errorMsg ''404'' then
        \<lparr>videoUrl = [], status = Failed, operationName = None,
         error = Some (not_available_prefix @ errorMsg)\<rparr>
      else
        \<lparr>videoUrl = [], status = Failed, operationName = None, error = Some errorMsg\<rparr>)"

definition generateVideo :: "veo_env \<Rightarrow> VideoGenerationConfig \<Rightarrow> thrown + VideoGenerationResult" where
  \<comment> \<open>\<open>Inl\<close> would be an exception reaching the caller\<close>
  "generateVideo env config =
     (case generateVideo_try env config of
        Inl e \<Rightarrow> Inr (generateVideo_catch e)
      | Inr r \<Rightarrow> Inr r)"

subsection \<open>The earlier copy of the service, which polls through the SDK\<close>

text \<open>
  The first copy in the file: the same submission with another primary model, then
  \<^verbatim>\<open>pollOperationSDK\<close> for an operation with a name, and the same outer \<^verbatim>\<open>catch\<close>.
\<close>

definition primary_request_sdk :: "string \<Rightarrow> string \<Rightarrow> submit_request" where
  "primary_request_sdk p ratio =
     \<lparr>model = ''veo-3.0-fast-generate'', req_prompt = p, req_aspectRatio = ratio,
      numberOfVideos = 1, personGeneration = ''allow_adult''\<rparr>"

definition generateVideo_sdk_try :: "veo_env \<Rightarrow> VideoGenerationConfig \<Rightarrow> thrown + VideoGenerationResult" where
  "generateVideo_sdk_try env config =
     (case snd (submit_with_fallback env
                 (primary_request_sdk (prompt config) (aspect_of config))
                 (fallback_request (prompt config) (aspect_of config))) of
        Inl e \<Rightarrow> Inl e
      | Inr operation \<Rightarrow>
          if truthy (op_name operation)
          then Inr (pollOperationSDK env (string_of (op_name operation)))
          else Inr (immediate_result operation))"

definition generateVideo_sdk :: "veo_env \<Rightarrow> VideoGenerationConfig \<Rightarrow> thrown + VideoGenerationResult" where
  "generateVideo_sdk env config =
     (case generateVideo_sdk_try env config of
        Inl e \<Rightarrow> Inr (generateVideo_catch e)
      | Inr r \<Rightarrow> Inr r)"

section \<open>Script generator (\<^verbatim>\<open>generateVideoScript\<close>)\<close>

text \<open>A value as \<^verbatim>\<open>JSON.parse\<close> builds it.\<close>

datatype json =
    JNull
  | JBool bool
  | JNum real
  | JStr string
  | JArr "json list"
  | JObj "(string \<times> json) list"

text \<open>The interfaces \<^verbatim>\<open>Scene\<close> and \<^verbatim>\<open>VideoScript\<close>.\<close>

record Scene =
  timeStart :: real
  timeEnd :: real
  visual :: string
  scene_text :: string

record VideoScript =
  title :: string
  duration :: real
  scenes :: "Scene list"
  voiceover :: string
  script_prompt :: string

text \<open>
  The cast \<^verbatim>\<open>as VideoScript\<close> checks nothing when the program runs. These functions say
  when a parsed value has the shape of the interface, and read it if so.
\<close>

definition as_Scene :: "json \<Rightarrow> Scene option" where
  "as_Scene j =
     (case j of
        JObj fs \<Rightarrow>
          (case (map_of fs ''timeStart'', map_of fs ''timeEnd'', map_of fs ''visual'',
                 map_of fs ''text'') of
             (Some (JNum a), Some (JNum b), Some (JStr v), Some (JStr t)) \<Rightarrow>
               Some \<lparr>timeStart = a, timeEnd = b, visual = v, scene_text = t\<rparr>
           | _ \<Rightarrow> None)
      | _ \<Rightarrow> None)"

fun all_some :: "'a option list \<Rightarrow> 'a list option" where
  "all_some [] = Some []"
| "all_some (None # xs) = None"
| "all_some (Some x # xs) = (case all_some xs of None \<Rightarrow> None | Some ys \<Rightarrow> Some (x # ys))"

definition as_VideoScript :: "json \<Rightarrow> VideoScript option" where
  "as_VideoScript j =
     (case j of
        JObj fs \<Rightarrow>
          (case (map_of fs ''title'', map_of fs ''duration'', map_of fs ''scenes'',
                 map_of fs ''voiceover'', map_of fs ''prompt'') of
             (Some (JStr t), Some (JNum d), Some (JArr ss), Some (JStr v), Some (JStr p)) \<Rightarrow>
               (case all_some (map as_Scene ss) of
                  Some sc \<Rightarrow>
                    Some \<lparr>title = t, duration = d, scenes = sc, voiceover = v,
                          script_prompt = p\<rparr>
                | None \<Rightarrow> None)
           | _ \<Rightarrow> None)
      | _ \<Rightarrow> None)"

text \<open>Scenes that follow one another from time \<open>t\<close> and end at \<open>d\<close>: each starts where
  the one before ended, and none ends before it starts.\<close>

fun scenes_from :: "real \<Rightarrow> Scene list \<Rightarrow> real \<Rightarrow> bool" where
  "scenes_from t [] d = (t = d)"
| "scenes_from t (s # ss) d =
     (timeStart s = t \<and> timeStart s \<le> timeEnd s \<and> scenes_from (timeEnd s) ss d)"

definition scenes_cover :: "VideoScript \<Rightarrow> bool" where
  "scenes_cover vs = scenes_from 0 (scenes vs) (duration vs)"

text \<open>
  The text of the service's response, described by what \<^verbatim>\<open>JSON.parse\<close> makes of it:
  it is not valid JSON and the parser throws, or it is valid JSON for a value. A missing
  text (\<^verbatim>\<open>undefined\<close>) is not valid JSON.
\<close>

datatype response_text = NotJson thrown | JsonText json

record script_request =
  sr_themeName :: string
  sr_themeDescription :: string
  sr_componentList :: string
  sr_durationSeconds :: nat

fun join_lines :: "string list \<Rightarrow> string" where
  \<comment> \<open>\<^verbatim>\<open>.join('\n')\<close>\<close>
  "join_lines [] = []"
| "join_lines [x] = x"
| "join_lines (x # y # ys) = x @ [CHR 0x0A] @ join_lines (y # ys)"

definition componentList :: "ComponentData list \<Rightarrow> string" where
  "componentList cs = join_lines (map (\<lambda>c. ''- '' @ comp_name c @ '': '' @ comp_content c) cs)"

definition generateVideoScript ::
  "(script_request \<Rightarrow> thrown + response_text) \<Rightarrow> string \<Rightarrow> string \<Rightarrow> components_value \<Rightarrow> nat
     \<Rightarrow> thrown + json" where
  \<comment> \<open>\<open>Inl\<close> is an exception reaching the caller; a value that is not an array has no
      \<^verbatim>\<open>map\<close>\<close>
  "generateVideoScript generateContent themeName themeDescription comps secs =
     (case comps of
        Components cs \<Rightarrow>
          (case generateContent
                  \<lparr>sr_themeName = themeName, sr_themeDescription = themeDescription,
                   sr_componentList = componentList cs, sr_durationSeconds = secs\<rparr> of
             Inl e \<Rightarrow> Inl e
           | Inr txt \<Rightarrow> (case txt of NotJson e \<Rightarrow> Inl e | JsonText v \<Rightarrow> Inr v))
      | _ \<Rightarrow> Inl (Error ''components.map is not a function''))"

section \<open>Generation status controller (\<^verbatim>\<open>App\<close>)\<close>

datatype GenerationStatus =
    S_idle
  | S_fetching_theme
  | S_generating_script
  | S_generating_video
  | S_completed
  | S_error

record app_state =
  selectedTheme :: "ThemeData option"
  components :: components_value
  script :: "json option"
  videoResult :: "VideoGenerationResult option"
  gen_status :: GenerationStatus
  errorMessage :: string
  useCustomPrompt :: bool

definition scene_object :: "real \<Rightarrow> real \<Rightarrow> string \<Rightarrow> string \<Rightarrow> json" where
  "scene_object a b v t =
     JObj [(''timeStart'', JNum a), (''timeEnd'', JNum b), (''visual'', JStr v), (''text'', JStr t)]"

definition nebzmart_script :: "string \<Rightarrow> json" where
  \<comment> \<open>the object literal given to \<^verbatim>\<open>setScript\<close>; the argument is \<^verbatim>\<open>NEBZMART_PROMPT\<close>\<close>
  "nebzmart_script NEBZMART_PROMPT =
     JObj
       [(''title'', JStr ''Nebzmart-G - Relief in 5 mins''),
        (''duration'', JNum 8),
        (''scenes'',
          JArr
            [scene_object 0 2 ''Man breathing comfortably, camera push-in'' [],
             scene_object 2 5
               ''White circles emerge from chest, symbolizing airways opening'' [],
             scene_object 5 7 ''Circles stabilize and pulse, man looks confident'' [],
             scene_object 7 8 ''Text overlay fades in''
               (''Nebzmart-G'' @ [CHR 0x0A] @ ''Relief in 5 mins. Lasts 12 hrs.'')]),
        (''voiceover'',
          JStr ''Nebzmart-G gives relief in just five minutes, and keeps you breathing easy for up to twelve hours.''),
        (''prompt'', JStr NEBZMART_PROMPT)]"

definition handle_video_result :: "VideoGenerationResult \<Rightarrow> app_state \<Rightarrow> app_state" where
  \<comment> \<open>\<^verbatim>\<open>handleGenerateVideo\<close> from \<^verbatim>\<open>setVideoResult(result)\<close> on\<close>
  "handle_video_result result st =
     (case status result of
        Completed \<Rightarrow> st\<lparr>videoResult := Some result, gen_status := S_completed\<rparr>
      | Failed \<Rightarrow>
          st\<lparr>videoResult := Some result,
             errorMessage := or_default (error result) ''Video generation failed'',
             gen_status := S_error\<rparr>
      | Pending \<Rightarrow>
          st\<lparr>videoResult := Some result,
             errorMessage := ''Video generation is still pending'',
             gen_status := S_error\<rparr>)"

definition handle_exception :: "thrown \<Rightarrow> app_state \<Rightarrow> app_state" where
  \<comment> \<open>the \<^verbatim>\<open>catch\<close> of \<^verbatim>\<open>handleGenerateVideo\<close>\<close>
  "handle_exception e st =
     st\<lparr>errorMessage := (case e of Error m \<Rightarrow> m | NonError s \<Rightarrow> ''An error occurred''),
        gen_status := S_error\<rparr>"

definition prompt_of :: "json \<Rightarrow> thrown + json option" where
  \<comment> \<open>\<^verbatim>\<open>videoScript.prompt\<close>: reading a property of \<^verbatim>\<open>null\<close> throws, a missing property
      is \<^verbatim>\<open>undefined\<close>\<close>
  "prompt_of v =
     (case v of
        JNull \<Rightarrow> Inl (Error ''Cannot read properties of null (reading 'prompt')'')
      | JObj fs \<Rightarrow> Inr (map_of fs ''prompt'')
      | _ \<Rightarrow> Inr None)"

definition run_video ::
  "(json option \<Rightarrow> thrown + VideoGenerationResult) \<Rightarrow> json option \<Rightarrow> app_state \<Rightarrow> app_state" where
  "run_video video_call promptToUse st =
     (case video_call promptToUse of
        Inl e \<Rightarrow> handle_exception e st
      | Inr result \<Rightarrow> handle_video_result result st)"

text \<open>
  \<^verbatim>\<open>handleGenerateVideo\<close>. Its arguments are the constant \<^verbatim>\<open>NEBZMART_PROMPT\<close>, the awaited
  call of \<^verbatim>\<open>generateVideoScript\<close> and the awaited call of \<^verbatim>\<open>generateVideo\<close> as a
  function of the prompt handed to it.
\<close>

definition handleGenerateVideo ::
  "string \<Rightarrow> (string \<Rightarrow> string \<Rightarrow> components_value \<Rightarrow> nat \<Rightarrow> thrown + json)
     \<Rightarrow> (json option \<Rightarrow> thrown + VideoGenerationResult) \<Rightarrow> app_state \<Rightarrow> app_state" where
  "handleGenerateVideo NEBZMART_PROMPT script_call video_call st0 =
     (let st = st0\<lparr>errorMessage := []\<rparr> in
      if useCustomPrompt st then
        run_video video_call (Some (JStr NEBZMART_PROMPT))
          (st\<lparr>gen_status := S_generating_video,
              script := Some (nebzmart_script NEBZMART_PROMPT)\<rparr>)
      else
        (case selectedTheme st of
           None \<Rightarrow> st
         | Some theme \<Rightarrow>
             (let st1 = st\<lparr>gen_status := S_generating_script\<rparr> in
              case script_call (theme_name theme) (theme_description theme) (components st1) 8 of
                Inl e \<Rightarrow> handle_exception e st1
              | Inr videoScript \<Rightarrow>
                  (let st2 = st1\<lparr>script := Some videoScript\<rparr> in
                   case prompt_of videoScript of
                     Inl e \<Rightarrow> handle_exception e st2
                   | Inr promptToUse \<Rightarrow>
                       run_video video_call promptToUse
                         (st2\<lparr>gen_status := S_generating_video\<rparr>)))))"

section \<open>Invariant of results and sample worlds\<close>

definition result_inv :: "VideoGenerationResult \<Rightarrow> bool" where
  "result_inv r = (if status r = Completed then videoUrl r \<noteq> [] else videoUrl r = [])"

definition poll_terminal :: "rest_poll \<Rightarrow> bool" where
  \<comment> \<open>the only answer that ends the loop of \<^verbatim>\<open>pollForVideo\<close>\<close>
  "poll_terminal p =
     (case p of
        PollData d \<Rightarrow> op_done d \<and> (case op_error d of None \<Rightarrow> True | Some err \<Rightarrow> False)
      | _ \<Rightarrow> False)"

definition sdk_terminal :: "thrown + operation_status \<Rightarrow> bool" where
  \<comment> \<open>the only answer that ends the loop of \<^verbatim>\<open>pollOperationSDK\<close>\<close>
  "sdk_terminal p = (case p of Inl e \<Rightarrow> False | Inr operation \<Rightarrow> op_done operation)"

definition handle_only :: "string \<Rightarrow> video_operation" where
  \<comment> \<open>an operation that has a name and nothing to wait on\<close>
  "handle_only nm =
     \<lparr>op_name = Some nm, op_wait = None, op_result = None, op_then = None,
      op_generatedVideos = None, op_json = ''{}''\<rparr>"

definition world :: "(submit_request \<Rightarrow> thrown + video_operation) \<Rightarrow> operation_status \<Rightarrow> veo_env" where
  \<comment> \<open>a provider that answers every status query, through the SDK and through REST, with
      the same report\<close>
  "world submit report =
     \<lparr>generateVideos = submit,
      operations_get = (\<lambda>nm k. Inr report),
      fetch_poll = (\<lambda>url k. PollData report),
      fetch_asset = (\<lambda>url. FetchOk (Inr ''local/1'')),
      apiKey = ''KEY''\<rparr>"

definition still_running :: operation_status where
  "still_running = \<lparr>op_done = False, op_error = None, response = RespUndefined\<rparr>"

definition done_with_error :: "string \<Rightarrow> operation_status" where
  "done_with_error m =
     \<lparr>op_done = True, op_error = Some \<lparr>err_message = Some m\<rparr>, response = RespUndefined\<rparr>"

definition sample_config :: VideoGenerationConfig where
  "sample_config = \<lparr>prompt = ''A calm patient'', durationSeconds = Some 8, aspectRatio = Some ''16:9''\<rparr>"

definition immediate_video :: "string \<Rightarrow> video_operation" where
  \<comment> \<open>an operation answered at once with one generated video\<close>
  "immediate_video u =
     \<lparr>op_name = None, op_wait = None, op_result = None, op_then = None,
      op_generatedVideos = Some [\<lparr>video = Some \<lparr>uri = Some u\<rparr>\<rparr>], op_json = ''{}''\<rparr>"

definition initial_state :: app_state where
  \<comment> \<open>the initial values of the \<^verbatim>\<open>useState\<close> hooks\<close>
  "initial_state =
     \<lparr>selectedTheme = None, components = Components [], script = None, videoResult = None,
      gen_status = S_idle, errorMessage = [], useCustomPrompt = True\<rparr>"

definition failed_with :: "VideoGenerationResult \<Rightarrow> thrown \<Rightarrow> bool" where
  \<comment> \<open>a failed result that reports the exception \<open>e\<close>: its message, behind the notice that
      the API is not available when the message contains \<^verbatim>\<open>predictLongRunning\<close> or \<^verbatim>\<open>404\<close>\<close>
  "failed_with r e =
     (status r = Failed \<and> videoUrl r = [] \<and>
      error r =
        Some (if str_includes (thrown_message e) ''predictLongRunning'' \<or>
                 str_includes (thrown_message e) ''404''
              then not_available_prefix @ thrown_message e
              else thrown_message e))"

section \<open>Properties of the content provider\<close>

lemma known_ids: "known_theme_ids = [''safety'', ''efficacy'', ''brand'', ''mechanism'', ''patient'']"
  by (simp add: known_theme_ids_def THEME_CATEGORIES_def)

lemma map_of_sectionMap_unknown:
  "themeId \<notin> set known_theme_ids \<Longrightarrow> map_of sectionMap themeId = None"
  by (simp add: known_ids sectionMap_def)

lemma map_of_fallbackData_unknown:
  "themeId \<notin> set known_theme_ids \<Longrightarrow> map_of fallbackData themeId = None"
  by (simp add: known_ids fallbackData_def)

lemma safety_fallback_length: "length safety_fallback = 5"
  by (simp add: safety_fallback_def fallbackData_def)

lemma fallback_safety_own: "fallback_value (record_lookup fallbackData ''safety'') = Components safety_fallback"
  by (simp add: fallback_value_def record_lookup_def safety_fallback_def fallbackData_def)

lemma getFallbackComponents_unknown:
  assumes "themeId \<notin> set known_theme_ids" and "\<not> List.member Object_prototype_keys themeId"
  shows "getFallbackComponents themeId = Components safety_fallback"
proof -
  have "fallback_value (record_lookup fallbackData themeId) = Undefined"
    using assms by (simp add: record_lookup_def map_of_fallbackData_unknown fallback_value_def)
  then show ?thesis
    by (simp add: getFallbackComponents_def fallback_safety_own)
qed

lemma section_for_unknown:
  assumes "themeId \<notin> set known_theme_ids" and "\<not> List.member Object_prototype_keys themeId"
  shows "section_for themeId = SectionName ''Safety''"
  using assms by (simp add: section_for_def record_lookup_def map_of_sectionMap_unknown)

lemma getFallbackComponents_known:
  assumes "themeId \<in> set known_theme_ids"
  shows "\<exists>xs. map_of fallbackData themeId = Some xs \<and> xs \<noteq> [] \<and> getFallbackComponents themeId = Components xs"
  using assms
  by (auto simp add: known_ids getFallbackComponents_def record_lookup_def fallback_value_def fallbackData_def)

lemma fetchThemeComponents_never_throws:
  "\<exists>v. fetchThemeComponents query themeId = Inr v"
  by (simp add: fetchThemeComponents_def split: sum.split)

text \<open>
  Claim C7, as the code has it. \<^verbatim>\<open>fetchThemeComponents\<close> never throws, whatever the
  identifier and whatever the query does. For an identifier that is neither a known theme
  nor the name of a member of \<^verbatim>\<open>Object.prototype\<close>, it queries the section
  \<^verbatim>\<open>Safety\<close>: when the query succeeds with at least one row it returns those rows,
  mapped; in every other case (the query throws, reports an error, or has no rows) it
  returns the static fallback list of the theme \<^verbatim>\<open>safety\<close>. The list returned is never
  empty.
\<close>

theorem fetchThemeComponents_unknown_theme:
  "(\<exists>v. fetchThemeComponents query themeId = Inr v) \<and>
   (themeId \<notin> set known_theme_ids \<and> \<not> List.member Object_prototype_keys themeId \<longrightarrow>
     (\<exists>xs. fetchThemeComponents query themeId = Inr (Components xs) \<and> xs \<noteq> [] \<and>
        xs = (case query (SectionName ''Safety'') of
                QueryThrows e \<Rightarrow> safety_fallback
              | QueryReturns data err \<Rightarrow>
                  (case err of Some m \<Rightarrow> safety_fallback
                   | None \<Rightarrow> (case data of None \<Rightarrow> safety_fallback
                        | Some rows \<Rightarrow> if rows = [] then safety_fallback
                                       else map (map_row (SectionName ''Safety'')) rows)))))"
proof (intro conjI impI)
  show "\<exists>v. fetchThemeComponents query themeId = Inr v"
    by (rule fetchThemeComponents_never_throws)
next
  assume a: "themeId \<notin> set known_theme_ids \<and> \<not> List.member Object_prototype_keys themeId"
  have fb: "getFallbackComponents themeId = Components safety_fallback"
    using a by (simp add: getFallbackComponents_unknown)
  have sec: "section_for themeId = SectionName ''Safety''"
    using a by (simp add: section_for_unknown)
  have ne: "safety_fallback \<noteq> []"
    using safety_fallback_length by auto
  show "\<exists>xs. fetchThemeComponents query themeId = Inr (Components xs) \<and> xs \<noteq> [] \<and>
        xs = (case query (SectionName ''Safety'') of
                QueryThrows e \<Rightarrow> safety_fallback
              | QueryReturns data err \<Rightarrow>
                  (case err of Some m \<Rightarrow> safety_fallback
                   | None \<Rightarrow> (case data of None \<Rightarrow> safety_fallback
                        | Some rows \<Rightarrow> if rows = [] then safety_fallback
                                       else map (map_row (SectionName ''Safety'')) rows)))"
    using ne
    by (simp add: fetchThemeComponents_def fetchThemeComponents_try_def fb sec
        split: query_outcome.split option.split)
qed

text \<open>The theorem at the unknown theme \<^verbatim>\<open>oncology\<close> with the database offline.\<close>

theorem fetchThemeComponents_unknown_theme_witness:
  "''oncology'' \<notin> set known_theme_ids \<and> \<not> List.member Object_prototype_keys ''oncology'' \<and>
   fetchThemeComponents (\<lambda>s. QueryThrows (Error ''offline'')) ''oncology'' =
     Inr (Components safety_fallback) \<and> length safety_fallback = 5"
  using fetchThemeComponents_unknown_theme [of "\<lambda>s. QueryThrows (Error ''offline'')" "''oncology''"]
  by (simp add: known_ids Object_prototype_keys_def safety_fallback_length)

text \<open>
  Claim C7 as written fails: for the unknown theme \<^verbatim>\<open>oncology\<close>, when the query for the
  section \<^verbatim>\<open>Safety\<close> succeeds with one row, that row is returned and not the static
  fallback list.
\<close>

theorem fetchThemeComponents_unknown_theme_counterexample:
  "''oncology'' \<notin> set known_theme_ids \<and>
   fetchThemeComponents
     (\<lambda>s. QueryReturns (Some [\<lparr>row_id = ''C1'', row_name = ''Dose'', row_description = Some ''Once daily'',
                                row_section = Some ''Safety''\<rparr>]) None) ''oncology'' =
     Inr (Components [\<lparr>comp_id = ''C1'', comp_name = ''Dose'', comp_content = ''Once daily'',
                        comp_section = SectionName ''Safety''\<rparr>]) \<and>
   fetchThemeComponents
     (\<lambda>s. QueryReturns (Some [\<lparr>row_id = ''C1'', row_name = ''Dose'', row_description = Some ''Once daily'',
                                row_section = Some ''Safety''\<rparr>]) None) ''oncology'' \<noteq>
     Inr (Components safety_fallback)"
  by (simp add: known_ids fetchThemeComponents_def fetchThemeComponents_try_def map_row_def
      safety_fallback_def fallbackData_def)

text \<open>
  Claim C10. For a known theme, a query that succeeds with zero rows makes
  \<^verbatim>\<open>fetchThemeComponents\<close> return that theme's static fallback list, which is not empty,
  and this is the list it returns when the query fails (it throws or reports an error).
\<close>

theorem fetchThemeComponents_empty_rows:
  assumes "themeId \<in> set known_theme_ids"
    and "query (section_for themeId) = QueryReturns (Some []) None"
    and "query_failed (query' (section_for themeId))"
  shows "\<exists>xs. map_of fallbackData themeId = Some xs \<and> xs \<noteq> [] \<and>
           fetchThemeComponents query themeId = Inr (Components xs) \<and>
           fetchThemeComponents query' themeId = Inr (Components xs)"
proof -
  obtain xs where xs: "map_of fallbackData themeId = Some xs" "xs \<noteq> []"
    "getFallbackComponents themeId = Components xs"
    using getFallbackComponents_known [OF assms(1)] by blast
  have "fetchThemeComponents query themeId = Inr (Components xs)"
    using assms(2) xs(3) by (simp add: fetchThemeComponents_def fetchThemeComponents_try_def)
  moreover have "fetchThemeComponents query' themeId = Inr (Components xs)"
    using assms(3) xs(3)
    by (simp add: fetchThemeComponents_def fetchThemeComponents_try_def query_failed_def
        split: query_outcome.splits option.splits)
  ultimately show ?thesis using xs by blast
qed

text \<open>The theorem at the theme \<^verbatim>\<open>brand\<close>, whose fallback list has three entries.\<close>

theorem fetchThemeComponents_empty_rows_witness:
  "''brand'' \<in> set known_theme_ids \<and>
   query_failed (QueryThrows (Error ''offline'')) \<and>
   length (case map_of fallbackData ''brand'' of Some xs \<Rightarrow> xs | None \<Rightarrow> []) = 3 \<and>
   fetchThemeComponents (\<lambda>s. QueryReturns (Some []) None) ''brand'' =
     fetchThemeComponents (\<lambda>s. QueryThrows (Error ''offline'')) ''brand'' \<and>
   (\<exists>xs. fetchThemeComponents (\<lambda>s. QueryReturns (Some []) None) ''brand'' = Inr (Components xs) \<and> xs \<noteq> [])"
proof -
  have k: "''brand'' \<in> set known_theme_ids" by (simp add: known_ids)
  have f: "query_failed (QueryThrows (Error ''offline''))" by (simp add: query_failed_def)
  have l: "length (case map_of fallbackData ''brand'' of Some xs \<Rightarrow> xs | None \<Rightarrow> []) = 3"
    by (simp add: fallbackData_def)
  from fetchThemeComponents_empty_rows [of "''brand''" "\<lambda>s. QueryReturns (Some []) None"
      "\<lambda>s. QueryThrows (Error ''offline'')", OF k _ f]
  show ?thesis using k f l by auto
qed

text \<open>
  Why the identifiers that name a member of \<^verbatim>\<open>Object.prototype\<close> are set apart: for
  \<^verbatim>\<open>constructor\<close> the lookup \<^verbatim>\<open>fallbackData[themeId]\<close> finds the inherited member, which is
  truthy, so with the database offline the caller receives that member and not a list.
\<close>

lemma fetchThemeComponents_inherited_member:
  "fetchThemeComponents (\<lambda>s. QueryThrows (Error ''offline'')) ''constructor'' =
     Inr (InheritedValue ''constructor'')"
  by (simp add: fetchThemeComponents_def fetchThemeComponents_try_def getFallbackComponents_def
      fallback_value_def record_lookup_def fallbackData_def Object_prototype_keys_def)

section \<open>Properties of the polling loops\<close>

declare pollForVideo_from.simps [simp del] pollOperationSDK_from.simps [simp del]

lemma pollForVideo_from_count:
  "attempt \<le> maxAttempts \<Longrightarrow> snd (pollForVideo_from env nm attempt) \<le> maxAttempts"
proof (induction env nm attempt rule: pollForVideo_from.induct)
  case (1 env nm attempt)
  show ?case
  proof (cases "attempt < maxAttempts")
    case True
    then have s: "Suc attempt \<le> maxAttempts" by simp
    show ?thesis
      using True s "1.IH"
      by (subst pollForVideo_from.simps)
         (auto split: rest_poll.split option.split)
  next
    case False
    then show ?thesis using "1.prems" by (subst pollForVideo_from.simps) simp
  qed
qed

lemma pollForVideo_from_exhaust:
  assumes "\<And>k. attempt \<le> k \<Longrightarrow> k < maxAttempts \<Longrightarrow>
             \<not> poll_terminal (fetch_poll env (poll_url (apiKey env) nm) k)"
    and "attempt \<le> maxAttempts"
  shows "pollForVideo_from env nm attempt = (RespNull, maxAttempts)"
  using assms
proof (induction env nm attempt rule: pollForVideo_from.induct)
  case (1 env nm attempt)
  show ?case
  proof (cases "attempt < maxAttempts")
    case True
    have nt: "\<not> poll_terminal (fetch_poll env (poll_url (apiKey env) nm) attempt)"
      using "1.prems"(1) [of attempt] True by simp
    have rest: "\<And>k. Suc attempt \<le> k \<Longrightarrow> k < maxAttempts \<Longrightarrow>
             \<not> poll_terminal (fetch_poll env (poll_url (apiKey env) nm) k)"
      using "1.prems"(1) by simp
    have s: "Suc attempt \<le> maxAttempts" using True by simp
    show ?thesis
      using True nt "1.IH" rest s
      by (subst pollForVideo_from.simps)
         (auto simp: poll_terminal_def split: rest_poll.splits option.splits)
  next
    case False
    then show ?thesis using "1.prems"(2) by (subst pollForVideo_from.simps) simp
  qed
qed

lemma pollOperationSDK_from_count:
  "attempts \<le> maxAttempts \<Longrightarrow> snd (pollOperationSDK_from env nm attempts) \<le> maxAttempts"
proof (induction env nm attempts rule: pollOperationSDK_from.induct)
  case (1 env nm attempts)
  show ?case
  proof (cases "attempts < maxAttempts")
    case True
    then have s: "Suc attempts \<le> maxAttempts" by simp
    show ?thesis
      using True s "1.IH"
      by (subst pollOperationSDK_from.simps) (auto split: sum.split)
  next
    case False
    then show ?thesis using "1.prems" by (subst pollOperationSDK_from.simps) simp
  qed
qed

lemma pollOperationSDK_from_exhaust:
  assumes "\<And>k. attempts \<le> k \<Longrightarrow> k < maxAttempts \<Longrightarrow> \<not> sdk_terminal (operations_get env nm k)"
    and "attempts \<le> maxAttempts"
  shows "pollOperationSDK_from env nm attempts =
           (\<lparr>videoUrl = [], status = Pending, operationName = Some nm,
             error = Some ''Video generation timed out after 10 minutes''\<rparr>, maxAttempts)"
  using assms
proof (induction env nm attempts rule: pollOperationSDK_from.induct)
  case (1 env nm attempts)
  show ?case
  proof (cases "attempts < maxAttempts")
    case True
    have nt: "\<not> sdk_terminal (operations_get env nm attempts)"
      using "1.prems"(1) [of attempts] True by simp
    have rest: "\<And>k. Suc attempts \<le> k \<Longrightarrow> k < maxAttempts \<Longrightarrow>
             \<not> sdk_terminal (operations_get env nm k)"
      using "1.prems"(1) by simp
    have s: "Suc attempts \<le> maxAttempts" using True by simp
    show ?thesis
      using True nt "1.IH" rest s
      by (subst pollOperationSDK_from.simps)
         (auto simp: sdk_terminal_def split: sum.splits)
  next
    case False
    then show ?thesis using "1.prems"(2) by (subst pollOperationSDK_from.simps) simp
  qed
qed

section \<open>Properties of the video pipeline\<close>

lemma createObjectURL_nonempty: "createObjectURL blob \<noteq> []"
  by (simp add: createObjectURL_def)

lemma fetchVideoAsBlob_nonempty: "fetchVideoAsBlob env u = Inr b \<Longrightarrow> b \<noteq> []"
  by (auto simp: fetchVideoAsBlob_def createObjectURL_nonempty split: asset_fetch.splits sum.splits)

lemma truthy_string_of: "truthy v \<Longrightarrow> string_of v \<noteq> []"
  by (simp add: truthy_def string_of_def split: option.splits)

lemma operation_result_inv: "operation_result env operation nm = Inr r \<Longrightarrow> result_inv r"
  by (auto simp: operation_result_def result_inv_def Let_def
      split: sum.splits if_splits dest: fetchVideoAsBlob_nonempty)

lemma operation_result_status:
  "operation_result env operation nm = Inr r \<Longrightarrow>
     status r = Completed \<or> (status r = Failed \<and> (\<exists>m. error r = Some m \<and> m \<noteq> []))"
  by (auto simp: operation_result_def no_video_message_def Let_def split: sum.splits if_splits)

lemma immediate_result_inv: "result_inv (immediate_result operation)"
  by (simp add: immediate_result_def result_inv_def Let_def truthy_string_of)

lemma immediate_result_status:
  "status (immediate_result operation) = Completed \<or>
     (status (immediate_result operation) = Failed \<and>
        (\<exists>m. error (immediate_result operation) = Some m \<and> m \<noteq> []))"
  by (simp add: immediate_result_def Let_def)

lemma generateVideo_catch_inv: "result_inv (generateVideo_catch e)"
  by (simp add: generateVideo_catch_def result_inv_def Let_def)

lemma status_result_inv: "result_inv (status_result nm operation)"
  by (simp add: status_result_def result_inv_def Let_def truthy_string_of split: option.split)

lemma pollOperationSDK_from_inv: "result_inv (fst (pollOperationSDK_from env nm attempts))"
proof (induction env nm attempts rule: pollOperationSDK_from.induct)
  case (1 env nm attempts)
  have timeout: "result_inv \<lparr>videoUrl = [], status = Pending, operationName = Some nm,
      error = Some ''Video generation timed out after 10 minutes''\<rparr>"
    by (simp add: result_inv_def)
  show ?case
    using "1.IH" timeout
    by (subst pollOperationSDK_from.simps)
       (auto simp: status_result_inv split: sum.split)
qed

lemma generateVideo_try_inv: "generateVideo_try env config = Inr r \<Longrightarrow> result_inv r"
  by (auto simp: generateVideo_try_def immediate_result_inv
      split: sum.splits if_splits dest: operation_result_inv)

lemma generateVideo_sdk_try_inv: "generateVideo_sdk_try env config = Inr r \<Longrightarrow> result_inv r"
  by (auto simp: generateVideo_sdk_try_def immediate_result_inv pollOperationSDK_def
      pollOperationSDK_from_inv split: sum.splits if_splits)

lemma generateVideo_total: "\<exists>r. generateVideo env config = Inr r"
  by (simp add: generateVideo_def split: sum.split)

lemma generateVideo_inv: "generateVideo env config = Inr r \<Longrightarrow> result_inv r"
  by (auto simp: generateVideo_def generateVideo_catch_inv split: sum.splits
      dest: generateVideo_try_inv)

lemma generateVideo_sdk_inv: "generateVideo_sdk env config = Inr r \<Longrightarrow> result_inv r"
  by (auto simp: generateVideo_sdk_def generateVideo_catch_inv split: sum.splits
      dest: generateVideo_sdk_try_inv)

text \<open>
  Claim C9. Every result the pipeline builds has a non-empty \<^verbatim>\<open>videoUrl\<close> when its status
  is completed and the empty \<^verbatim>\<open>videoUrl\<close> when its status is failed or pending: the results
  of \<^verbatim>\<open>generateVideo\<close> (both copies of the service), of \<^verbatim>\<open>pollOperationSDK\<close>, of the outer
  \<^verbatim>\<open>catch\<close> and of the immediate branch.
\<close>

theorem constructed_results_invariant:
  "(\<exists>r. generateVideo env config = Inr r \<and> result_inv r) \<and>
   (\<exists>r. generateVideo_sdk env config = Inr r \<and> result_inv r) \<and>
   result_inv (pollOperationSDK env nm) \<and>
   result_inv (generateVideo_catch e) \<and>
   result_inv (immediate_result operation)"
proof -
  obtain r where r: "generateVideo env config = Inr r"
    using generateVideo_total by blast
  obtain r' where r': "generateVideo_sdk env config = Inr r'"
    by (cases "generateVideo_sdk_try env config") (auto simp: generateVideo_sdk_def)
  show ?thesis
    using r r' generateVideo_inv [OF r] generateVideo_sdk_inv [OF r']
    by (simp add: pollOperationSDK_def pollOperationSDK_from_inv generateVideo_catch_inv
        immediate_result_inv)
qed

text \<open>What the controller makes of a result of the pipeline once it has the result.\<close>

lemma handle_video_result_status:
  assumes "generateVideo env config = Inr r \<or> generateVideo_sdk env config = Inr r"
  shows "(gen_status (handle_video_result r st) = S_completed \<longrightarrow>
            status r = Completed \<and> videoUrl r \<noteq> []) \<and>
         (status r = Failed \<or> status r = Pending \<longrightarrow>
            gen_status (handle_video_result r st) = S_error) \<and>
         videoResult (handle_video_result r st) = Some r"
proof -
  have inv: "result_inv r"
    using assms generateVideo_inv generateVideo_sdk_inv by blast
  show ?thesis
    using inv by (cases "status r") (auto simp: handle_video_result_def result_inv_def)
qed

text \<open>
  Claim C3. When the submission to the primary model throws, exactly two requests are sent:
  the primary one and one fallback. If the fallback succeeds the pipeline goes on with its
  operation. If the fallback throws too, the value thrown on is the primary's, and
  \<^verbatim>\<open>generateVideo\<close> returns a failed result whose message is the primary error's message
  (behind the notice that the API is not available, when the message contains
  \<^verbatim>\<open>predictLongRunning\<close> or \<^verbatim>\<open>404\<close>).
\<close>

theorem submission_fallback_once:
  assumes "generateVideos env (primary_request (prompt config) (aspect_of config)) = Inl e1"
  shows "fst (submit_video env config) =
           [primary_request (prompt config) (aspect_of config),
            fallback_request (prompt config) (aspect_of config)] \<and>
         (case generateVideos env (fallback_request (prompt config) (aspect_of config)) of
            Inr operation \<Rightarrow>
              snd (submit_video env config) = Inr operation \<and>
              generateVideo_try env config =
                (if truthy (op_name operation)
                 then operation_result env operation (string_of (op_name operation))
                 else Inr (immediate_result operation))
          | Inl e2 \<Rightarrow>
              snd (submit_video env config) = Inl e1 \<and>
              generateVideo env config = Inr (generateVideo_catch e1) \<and>
              status (generateVideo_catch e1) = Failed \<and>
              (error (generateVideo_catch e1) = Some (thrown_message e1) \<or>
               error (generateVideo_catch e1) = Some (not_available_prefix @ thrown_message e1)))"
  using assms
  by (simp add: submit_video_def submit_with_fallback_def generateVideo_def generateVideo_try_def
      generateVideo_catch_def Let_def split: sum.split)


lemma world_simps:
  "generateVideos (world submit report) = submit"
  "operations_get (world submit report) nm k = Inr report"
  "fetch_poll (world submit report) url k = PollData report"
  "apiKey (world submit report) = ''KEY''"
  by (simp_all add: world_def)

lemma handle_only_simps:
  "op_name (handle_only nm) = Some nm"
  "op_wait (handle_only nm) = None"
  "op_result (handle_only nm) = None"
  "op_then (handle_only nm) = None"
  by (simp_all add: handle_only_def)

lemma pollForVideo_world_not_terminal:
  assumes "\<not> poll_terminal (PollData report)"
  shows "pollForVideo_from (world submit report) nm 0 = (RespNull, 120)"
proof -
  have "pollForVideo_from (world submit report) nm 0 = (RespNull, maxAttempts)"
    by (rule pollForVideo_from_exhaust) (simp_all add: world_simps assms)
  then show ?thesis by (simp add: maxAttempts_def)
qed

lemma generateVideo_handle_only:
  assumes "pollForVideo_from (world (\<lambda>r. Inr (handle_only nm)) report) nm 0 = (RespNull, k)"
    and "nm \<noteq> []"
  shows "generateVideo (world (\<lambda>r. Inr (handle_only nm)) report) config =
           Inr \<lparr>videoUrl = [], status = Failed, operationName = Some nm,
                error = Some ''No video in completed operation: null''\<rparr>"
  using assms
  by (simp add: generateVideo_def generateVideo_try_def submit_video_def submit_with_fallback_def
      world_simps handle_only_simps truthy_def string_of_def operation_result_def
      await_operation_def pollForVideo_def js_or_def response_uri_def response_sample_uri_def
      no_video_message_def stringify_response_def or_default_def)

text \<open>
  Claim C1 at a provider whose operation never reports done. The REST loop of
  \<^verbatim>\<open>pollForVideo\<close> sends 120 queries and returns null, and \<^verbatim>\<open>generateVideo\<close> turns that
  into a failed result that speaks of a completed operation; the claim asks for a pending
  result with a timeout message, which is what the earlier copy of the service, polling
  through \<^verbatim>\<open>pollOperationSDK\<close>, returns in the same world.
\<close>

theorem poll_exhaustion_reported_as_failed:
  "pollForVideo_from (world (\<lambda>r. Inr (handle_only ''operations/abc'')) still_running)
      ''operations/abc'' 0 = (RespNull, 120) \<and>
   generateVideo (world (\<lambda>r. Inr (handle_only ''operations/abc'')) still_running) sample_config =
     Inr \<lparr>videoUrl = [], status = Failed, operationName = Some ''operations/abc'',
          error = Some ''No video in completed operation: null''\<rparr> \<and>
   generateVideo_sdk (world (\<lambda>r. Inr (handle_only ''operations/abc'')) still_running) sample_config =
     Inr \<lparr>videoUrl = [], status = Pending, operationName = Some ''operations/abc'',
          error = Some ''Video generation timed out after 10 minutes''\<rparr>"
proof -
  let ?w = "world (\<lambda>r. Inr (handle_only ''operations/abc'')) still_running"
  have p: "pollForVideo_from ?w ''operations/abc'' 0 = (RespNull, 120)"
    by (rule pollForVideo_world_not_terminal) (simp add: poll_terminal_def still_running_def)
  have g: "generateVideo ?w sample_config =
     Inr \<lparr>videoUrl = [], status = Failed, operationName = Some ''operations/abc'',
          error = Some ''No video in completed operation: null''\<rparr>"
    by (rule generateVideo_handle_only [OF p]) simp
  have "pollOperationSDK_from ?w ''operations/abc'' 0 =
           (\<lparr>videoUrl = [], status = Pending, operationName = Some ''operations/abc'',
             error = Some ''Video generation timed out after 10 minutes''\<rparr>, maxAttempts)"
    by (rule pollOperationSDK_from_exhaust)
       (simp_all add: world_simps sdk_terminal_def still_running_def)
  then have s: "generateVideo_sdk ?w sample_config =
     Inr \<lparr>videoUrl = [], status = Pending, operationName = Some ''operations/abc'',
          error = Some ''Video generation timed out after 10 minutes''\<rparr>"
    by (simp add: generateVideo_sdk_def generateVideo_sdk_try_def submit_with_fallback_def
        world_simps handle_only_simps truthy_def string_of_def pollOperationSDK_def)
  show ?thesis using p g s by simp
qed

text \<open>
  Claim C5 at a provider whose every status query reports done with the error
  \<^verbatim>\<open>quota exceeded\<close>. In \<^verbatim>\<open>pollForVideo\<close> the error is thrown inside the loop's own
  \<^verbatim>\<open>try\<close>, caught by the same iteration and the loop goes on: 120 queries are sent and the
  result of \<^verbatim>\<open>generateVideo\<close> does not carry the payload's message. \<^verbatim>\<open>pollOperationSDK\<close>
  stops at the first query and returns the message.
\<close>

theorem done_with_error_keeps_polling:
  "pollForVideo_from (world (\<lambda>r. Inr (handle_only ''operations/abc'')) (done_with_error ''quota exceeded''))
      ''operations/abc'' 0 = (RespNull, 120) \<and>
   generateVideo (world (\<lambda>r. Inr (handle_only ''operations/abc'')) (done_with_error ''quota exceeded''))
      sample_config =
     Inr \<lparr>videoUrl = [], status = Failed, operationName = Some ''operations/abc'',
          error = Some ''No video in completed operation: null''\<rparr> \<and>
   pollOperationSDK_from (world (\<lambda>r. Inr (handle_only ''operations/abc'')) (done_with_error ''quota exceeded''))
      ''operations/abc'' 0 =
     (\<lparr>videoUrl = [], status = Failed, operationName = Some ''operations/abc'',
       error = Some ''quota exceeded''\<rparr>, 1)"
proof -
  let ?w = "world (\<lambda>r. Inr (handle_only ''operations/abc'')) (done_with_error ''quota exceeded'')"
  have p: "pollForVideo_from ?w ''operations/abc'' 0 = (RespNull, 120)"
    by (rule pollForVideo_world_not_terminal) (simp add: poll_terminal_def done_with_error_def)
  have g: "generateVideo ?w sample_config =
     Inr \<lparr>videoUrl = [], status = Failed, operationName = Some ''operations/abc'',
          error = Some ''No video in completed operation: null''\<rparr>"
    by (rule generateVideo_handle_only [OF p]) simp
  have s: "pollOperationSDK_from ?w ''operations/abc'' 0 =
     (\<lparr>videoUrl = [], status = Failed, operationName = Some ''operations/abc'',
       error = Some ''quota exceeded''\<rparr>, 1)"
    by (subst pollOperationSDK_from.simps)
       (simp add: world_simps maxAttempts_def done_with_error_def status_result_def
          response_uri_def truthy_def or_default_def)
  show ?thesis using p g s by simp
qed

lemma str_includes_Nil: "str_includes [] (c # cs) = False"
  by simp

lemma generateVideo_catch_message:
  "status (generateVideo_catch e) = Failed \<and> videoUrl (generateVideo_catch e) = [] \<and>
   (\<exists>m. error (generateVideo_catch e) = Some m \<and>
        (m = thrown_message e \<or> m = not_available_prefix @ thrown_message e) \<and>
        (m = [] \<longleftrightarrow> thrown_message e = []))"
proof (cases "thrown_message e = []")
  case True
  then show ?thesis by (simp add: generateVideo_catch_def Let_def)
next
  case False
  then show ?thesis by (simp add: generateVideo_catch_def Let_def)
qed

lemma generateVideo_try_status:
  assumes "generateVideo_try env config = Inr r"
  shows "status r = Completed \<or>
         (status r = Failed \<and> videoUrl r = [] \<and> (\<exists>m. error r = Some m \<and> m \<noteq> []))"
proof -
  have inv: "result_inv r" using assms by (rule generateVideo_try_inv)
  obtain operation where op: "snd (submit_video env config) = Inr operation"
    using assms by (auto simp: generateVideo_try_def split: sum.splits)
  have "status r = Completed \<or> (status r = Failed \<and> (\<exists>m. error r = Some m \<and> m \<noteq> []))"
  proof (cases "truthy (op_name operation)")
    case True
    then have "operation_result env operation (string_of (op_name operation)) = Inr r"
      using assms op by (simp add: generateVideo_try_def)
    then show ?thesis by (rule operation_result_status)
  next
    case False
    then have "r = immediate_result operation"
      using assms op by (simp add: generateVideo_try_def)
    then show ?thesis using immediate_result_status [of operation] by simp
  qed
  then show ?thesis using inv by (auto simp: result_inv_def)
qed

text \<open>
  Claim C4 as written fails: when both submissions throw an \<^verbatim>\<open>Error\<close> whose message is
  empty, the failed result carries the empty message.
\<close>

theorem generateVideo_empty_message_counterexample:
  "generateVideo (world (\<lambda>r. Inl (Error [])) still_running) sample_config =
     Inr \<lparr>videoUrl = [], status = Failed, operationName = None, error = Some []\<rparr>"
  by (simp add: generateVideo_def generateVideo_try_def submit_video_def submit_with_fallback_def
      world_simps generateVideo_catch_def Let_def)

text \<open>The theorem of claim C3 where both submissions throw, and where only the primary
  one does.\<close>

theorem submission_fallback_once_witness:
  "generateVideo
     (world (\<lambda>r. if model r = ''veo-3.0-generate'' then Inl (Error ''500'') else Inl (Error ''503''))
        still_running) sample_config =
     Inr \<lparr>videoUrl = [], status = Failed, operationName = None, error = Some ''503''\<rparr> \<and>
   map model (fst (submit_video
     (world (\<lambda>r. if model r = ''veo-3.0-generate'' then Inl (Error ''500'') else Inl (Error ''503''))
        still_running) sample_config)) = [''veo-3.1-fast-generate-preview'', ''veo-3.0-generate''] \<and>
   snd (submit_video
     (world (\<lambda>r. if model r = ''veo-3.0-generate'' then Inr (immediate_video ''https://v/1'')
                  else Inl (Error ''503'')) still_running) sample_config) =
     Inr (immediate_video ''https://v/1'')"
proof -
  let ?both = "world (\<lambda>r. if model r = ''veo-3.0-generate'' then Inl (Error ''500'') else Inl (Error ''503'')) still_running"
  let ?one = "world (\<lambda>r. if model r = ''veo-3.0-generate'' then Inr (immediate_video ''https://v/1'')
                  else Inl (Error ''503'')) still_running"
  have p1: "generateVideos ?both (primary_request (prompt sample_config) (aspect_of sample_config)) = Inl (Error ''503'')"
    by (simp add: world_simps primary_request_def)
  have p2: "generateVideos ?one (primary_request (prompt sample_config) (aspect_of sample_config)) = Inl (Error ''503'')"
    by (simp add: world_simps primary_request_def)
  have f1: "generateVideos ?both (fallback_request (prompt sample_config) (aspect_of sample_config)) = Inl (Error ''500'')"
    by (simp add: world_simps fallback_request_def)
  have f2: "generateVideos ?one (fallback_request (prompt sample_config) (aspect_of sample_config)) = Inr (immediate_video ''https://v/1'')"
    by (simp add: world_simps fallback_request_def)
  have c: "generateVideo_catch (Error ''503'') =
      \<lparr>videoUrl = [], status = Failed, operationName = None, error = Some ''503''\<rparr>"
    by (simp add: generateVideo_catch_def Let_def)
  from submission_fallback_once [OF p1] f1 c
  have r1: "generateVideo ?both sample_config =
     Inr \<lparr>videoUrl = [], status = Failed, operationName = None, error = Some ''503''\<rparr>"
    and r2: "map model (fst (submit_video ?both sample_config)) = [''veo-3.1-fast-generate-preview'', ''veo-3.0-generate'']"
    by (simp_all add: primary_request_def fallback_request_def)
  from submission_fallback_once [OF p2] f2
  have r3: "snd (submit_video ?one sample_config) = Inr (immediate_video ''https://v/1'')"
    by simp
  show ?thesis using r1 r2 r3 by simp
qed

section \<open>Properties of the script generator and of the literal script\<close>

text \<open>
  Claim C6, as the code has it. When the response text is not valid JSON,
  \<^verbatim>\<open>generateVideoScript\<close> fails with the exception \<^verbatim>\<open>JSON.parse\<close> throws, unchanged, and an
  exception of the service call itself passes through in the same way. When the text is
  valid JSON, the parsed value is returned as it is, whatever fields it has: nothing checks
  the shape of a \<^verbatim>\<open>VideoScript\<close>. In \<^verbatim>\<open>handleGenerateVideo\<close> a failure of the call ends in the
  error status, and the script shown is the one from before: no script is put in its place.
\<close>

theorem generateVideoScript_parse_only:
  "(generateContent \<lparr>sr_themeName = themeName, sr_themeDescription = themeDescription,
        sr_componentList = componentList cs, sr_durationSeconds = secs\<rparr> = Inr (NotJson e) \<longrightarrow>
      generateVideoScript generateContent themeName themeDescription (Components cs) secs = Inl e) \<and>
   (generateContent \<lparr>sr_themeName = themeName, sr_themeDescription = themeDescription,
        sr_componentList = componentList cs, sr_durationSeconds = secs\<rparr> = Inl e \<longrightarrow>
      generateVideoScript generateContent themeName themeDescription (Components cs) secs = Inl e) \<and>
   (generateContent \<lparr>sr_themeName = themeName, sr_themeDescription = themeDescription,
        sr_componentList = componentList cs, sr_durationSeconds = secs\<rparr> = Inr (JsonText v) \<longrightarrow>
      generateVideoScript generateContent themeName themeDescription (Components cs) secs = Inr v) \<and>
   (\<not> useCustomPrompt st \<and> selectedTheme st = Some theme \<and>
    script_call (theme_name theme) (theme_description theme) (components st) 8 = Inl e \<longrightarrow>
      gen_status (handleGenerateVideo NEBZMART_PROMPT script_call video_call st) = S_error \<and>
      script (handleGenerateVideo NEBZMART_PROMPT script_call video_call st) = script st \<and>
      errorMessage (handleGenerateVideo NEBZMART_PROMPT script_call video_call st) =
        (case e of Error m \<Rightarrow> m | NonError s \<Rightarrow> ''An error occurred''))"
  by (simp add: generateVideoScript_def handleGenerateVideo_def handle_exception_def Let_def)

text \<open>
  Claim C6 as written fails: the response \<^verbatim>\<open>{}\<close> is valid JSON without any field of a
  \<^verbatim>\<open>VideoScript\<close>, and \<^verbatim>\<open>generateVideoScript\<close> returns it instead of failing.
\<close>

theorem generateVideoScript_missing_fields_counterexample:
  "generateVideoScript (\<lambda>req. Inr (JsonText (JObj []))) ''Safety''
      ''Dosage, side effects, contraindications'' (Components safety_fallback) 8 = Inr (JObj []) \<and>
   as_VideoScript (JObj []) = None"
  by (simp add: generateVideoScript_def as_VideoScript_def)

text \<open>The theorem of claim C6 at a response that is not JSON, at the response \<^verbatim>\<open>{}\<close>, and
  in the controller, started in auto mode on the theme \<^verbatim>\<open>safety\<close>.\<close>

theorem generateVideoScript_parse_only_witness:
  "generateVideoScript (\<lambda>req. Inr (NotJson (Error ''Unexpected token <''))) ''Safety'' ''Dosage''
      (Components []) 8 = Inl (Error ''Unexpected token <'') \<and>
   generateVideoScript (\<lambda>req. Inl (Error ''429'')) ''Safety'' ''Dosage''
      (Components []) 8 = Inl (Error ''429'') \<and>
   generateVideoScript (\<lambda>req. Inr (JsonText (JObj []))) ''Safety'' ''Dosage''
      (Components []) 8 = Inr (JObj []) \<and>
   gen_status (handleGenerateVideo ''P''
      (generateVideoScript (\<lambda>req. Inr (NotJson (Error ''Unexpected token <''))))
      (\<lambda>p. Inl (Error ''unused''))
      (initial_state\<lparr>useCustomPrompt := False,
         selectedTheme := Some \<lparr>theme_id = ''safety'', theme_name = ''Safety'', theme_description = ''Dosage''\<rparr>\<rparr>))
     = S_error \<and>
   errorMessage (handleGenerateVideo ''P''
      (generateVideoScript (\<lambda>req. Inr (NotJson (Error ''Unexpected token <''))))
      (\<lambda>p. Inl (Error ''unused''))
      (initial_state\<lparr>useCustomPrompt := False,
         selectedTheme := Some \<lparr>theme_id = ''safety'', theme_name = ''Safety'', theme_description = ''Dosage''\<rparr>\<rparr>))
     = ''Unexpected token <''"
proof -
  let ?bad = "\<lambda>req::script_request. (Inr (NotJson (Error ''Unexpected token <'')) :: thrown + response_text)"
  let ?thr = "\<lambda>req::script_request. (Inl (Error ''429'') :: thrown + response_text)"
  let ?obj = "\<lambda>req::script_request. (Inr (JsonText (JObj [])) :: thrown + response_text)"
  let ?th = "\<lparr>theme_id = ''safety'', theme_name = ''Safety'', theme_description = ''Dosage''\<rparr>"
  let ?st = "initial_state\<lparr>useCustomPrompt := False, selectedTheme := Some ?th\<rparr>"
  have 1: "generateVideoScript ?bad ''Safety'' ''Dosage'' (Components []) 8 = Inl (Error ''Unexpected token <'')"
    using generateVideoScript_parse_only [of ?bad "''Safety''" "''Dosage''" "[]" 8 "Error ''Unexpected token <''"]
    by simp
  have 2: "generateVideoScript ?thr ''Safety'' ''Dosage'' (Components []) 8 = Inl (Error ''429'')"
    using generateVideoScript_parse_only [of ?thr "''Safety''" "''Dosage''" "[]" 8 "Error ''429''"]
    by simp
  have 3: "generateVideoScript ?obj ''Safety'' ''Dosage'' (Components []) 8 = Inr (JObj [])"
    using generateVideoScript_parse_only [of ?obj "''Safety''" "''Dosage''" "[]" 8 _ "JObj []"]
    by simp
  have c: "components ?st = Components []" "\<not> useCustomPrompt ?st" "selectedTheme ?st = Some ?th"
    by (simp_all add: initial_state_def)
  have 4: "gen_status (handleGenerateVideo ''P'' (generateVideoScript ?bad) (\<lambda>p. Inl (Error ''unused'')) ?st) = S_error \<and>
           errorMessage (handleGenerateVideo ''P'' (generateVideoScript ?bad) (\<lambda>p. Inl (Error ''unused'')) ?st) = ''Unexpected token <''"
    using generateVideoScript_parse_only [of ?bad "''Safety''" "''Dosage''" "[]" 8 "Error ''Unexpected token <''" _
        ?st ?th "generateVideoScript ?bad" "''P''" "\<lambda>p. Inl (Error ''unused'')"] 1 c
    by simp
  show ?thesis using 1 2 3 4 by simp
qed

lemma nebzmart_script_view:
  "as_VideoScript (nebzmart_script p) =
     Some \<lparr>title = ''Nebzmart-G - Relief in 5 mins'', duration = 8,
           scenes =
             [\<lparr>timeStart = 0, timeEnd = 2, visual = ''Man breathing comfortably, camera push-in'',
               scene_text = []\<rparr>,
              \<lparr>timeStart = 2, timeEnd = 5,
               visual = ''White circles emerge from chest, symbolizing airways opening'',
               scene_text = []\<rparr>,
              \<lparr>timeStart = 5, timeEnd = 7,
               visual = ''Circles stabilize and pulse, man looks confident'', scene_text = []\<rparr>,
              \<lparr>timeStart = 7, timeEnd = 8, visual = ''Text overlay fades in'',
               scene_text = ''Nebzmart-G'' @ [CHR 0x0A] @ ''Relief in 5 mins. Lasts 12 hrs.''\<rparr>],
           voiceover = ''Nebzmart-G gives relief in just five minutes, and keeps you breathing easy for up to twelve hours.'',
           script_prompt = p\<rparr>"
  by (simp add: nebzmart_script_def scene_object_def as_VideoScript_def as_Scene_def)

lemma handleGenerateVideo_custom_script:
  "useCustomPrompt st \<Longrightarrow>
     script (handleGenerateVideo p script_call video_call st) = Some (nebzmart_script p)"
  by (simp add: handleGenerateVideo_def run_video_def handle_exception_def
      handle_video_result_def Let_def split: sum.split result_status.split)

text \<open>
  Claim C8, as the code has it. In fixed-ad mode \<^verbatim>\<open>handleGenerateVideo\<close> sets the script to
  the literal one, which has the shape of a \<^verbatim>\<open>VideoScript\<close>, lasts 8 seconds and has 4
  scenes over 0 to 2, 2 to 5, 5 to 7 and 7 to 8 seconds: contiguous, not overlapping and
  covering the whole duration. (A script parsed from a generation response is returned as
  parsed; the code checks nothing about its scenes.)
\<close>

theorem literal_script_scenes_cover:
  "(useCustomPrompt st \<longrightarrow>
      script (handleGenerateVideo p script_call video_call st) = Some (nebzmart_script p)) \<and>
   (\<exists>vs. as_VideoScript (nebzmart_script p) = Some vs \<and>
      duration vs = 8 \<and>
      map (\<lambda>s. (timeStart s, timeEnd s)) (scenes vs) = [(0, 2), (2, 5), (5, 7), (7, 8)] \<and>
      scenes_cover vs)"
  by (simp add: handleGenerateVideo_custom_script nebzmart_script_view scenes_cover_def)

text \<open>The theorem of claim C8 from the initial state, which is in fixed-ad mode, with a
  pipeline that answers at once.\<close>

theorem literal_script_scenes_cover_witness:
  "useCustomPrompt initial_state \<and>
   script (handleGenerateVideo ''P'' (\<lambda>n d c s. Inl (Error ''unused''))
            (\<lambda>p. generateVideo (world (\<lambda>r. Inr (immediate_video ''https://v/1'')) still_running)
                   sample_config) initial_state) = Some (nebzmart_script ''P'') \<and>
   (\<exists>vs. as_VideoScript (nebzmart_script ''P'') = Some vs \<and> scenes_cover vs)"
  using literal_script_scenes_cover [of initial_state "''P''" "\<lambda>n d c s. Inl (Error ''unused'')"
      "\<lambda>p. generateVideo (world (\<lambda>r. Inr (immediate_video ''https://v/1'')) still_running) sample_config"]
  by (auto simp: initial_state_def)

text \<open>
  Claim C8 as written fails for a parsed script: a response with the shape of a
  \<^verbatim>\<open>VideoScript\<close> whose two scenes cover 0 to 3 and 5 to 8 seconds of 8 is returned as it
  is, with the gap from 3 to 5.
\<close>

theorem parsed_script_gap_counterexample:
  "generateVideoScript
     (\<lambda>req. Inr (JsonText (JObj
        [(''title'', JStr ''Ad''), (''duration'', JNum 8),
         (''scenes'', JArr [scene_object 0 3 ''Opening'' [], scene_object 5 8 ''Closing'' []]),
         (''voiceover'', JStr ''Relief''), (''prompt'', JStr ''A calm patient'')])))
     ''Safety'' ''Dosage, side effects, contraindications'' (Components safety_fallback) 8 =
     Inr (JObj
        [(''title'', JStr ''Ad''), (''duration'', JNum 8),
         (''scenes'', JArr [scene_object 0 3 ''Opening'' [], scene_object 5 8 ''Closing'' []]),
         (''voiceover'', JStr ''Relief''), (''prompt'', JStr ''A calm patient'')]) \<and>
   as_VideoScript (JObj
        [(''title'', JStr ''Ad''), (''duration'', JNum 8),
         (''scenes'', JArr [scene_object 0 3 ''Opening'' [], scene_object 5 8 ''Closing'' []]),
         (''voiceover'', JStr ''Relief''), (''prompt'', JStr ''A calm patient'')]) =
     Some \<lparr>title = ''Ad'', duration = 8,
           scenes = [\<lparr>timeStart = 0, timeEnd = 3, visual = ''Opening'', scene_text = []\<rparr>,
                     \<lparr>timeStart = 5, timeEnd = 8, visual = ''Closing'', scene_text = []\<rparr>],
           voiceover = ''Relief'', script_prompt = ''A calm patient''\<rparr> \<and>
   \<not> scenes_cover
       \<lparr>title = ''Ad'', duration = 8,
        scenes = [\<lparr>timeStart = 0, timeEnd = 3, visual = ''Opening'', scene_text = []\<rparr>,
                  \<lparr>timeStart = 5, timeEnd = 8, visual = ''Closing'', scene_text = []\<rparr>],
        voiceover = ''Relief'', script_prompt = ''A calm patient''\<rparr>"
  by (simp add: generateVideoScript_def as_VideoScript_def as_Scene_def scene_object_def
      scenes_cover_def)

text \<open>
  Two general facts behind the sample worlds. \<^verbatim>\<open>generateVideo\<close> never returns a pending
  result, and whenever it has to poll by itself and no query ends the loop, it reports the
  exhausted poll as a failure of a completed operation. \<^verbatim>\<open>pollOperationSDK\<close>, on a query
  that reports done with an error and no video, stops there with the error's message.
\<close>

lemma generateVideo_never_pending:
  assumes "generateVideo env config = Inr r"
  shows "status r \<noteq> Pending"
proof (cases "generateVideo_try env config")
  case (Inl e)
  then have "r = generateVideo_catch e" using assms by (simp add: generateVideo_def)
  then show ?thesis using generateVideo_catch_message [of e] by simp
next
  case (Inr r')
  then have "r = r'" using assms by (simp add: generateVideo_def)
  then show ?thesis using generateVideo_try_status [OF Inr] by auto
qed

lemma generateVideo_after_exhaustion:
  assumes sub: "generateVideos env (primary_request (prompt config) (aspect_of config)) = Inr operation"
    and nm: "op_name operation = Some nm" "nm \<noteq> []"
    and nowait: "op_wait operation = None" "op_result operation = None" "op_then operation = None"
    and quiet: "\<And>k. k < maxAttempts \<Longrightarrow>
                 \<not> poll_terminal (fetch_poll env (poll_url (apiKey env) nm) k)"
  shows "snd (pollForVideo_from env nm 0) = maxAttempts \<and>
         generateVideo env config =
           Inr \<lparr>videoUrl = [], status = Failed, operationName = Some nm,
                error = Some ''No video in completed operation: null''\<rparr>"
proof -
  have p: "pollForVideo_from env nm 0 = (RespNull, maxAttempts)"
    by (rule pollForVideo_from_exhaust) (simp_all add: quiet)
  have "operation_result env operation nm =
           Inr \<lparr>videoUrl = [], status = Failed, operationName = Some nm,
                error = Some ''No video in completed operation: null''\<rparr>"
    using p nowait
    by (simp add: operation_result_def await_operation_def pollForVideo_def js_or_def
        response_uri_def response_sample_uri_def truthy_def no_video_message_def
        stringify_response_def or_default_def)
  then show ?thesis
    using p sub nm
    by (simp add: generateVideo_def generateVideo_try_def submit_video_def
        submit_with_fallback_def truthy_def string_of_def)
qed

lemma pollOperationSDK_done_with_error:
  assumes "attempts < maxAttempts"
    and "operations_get env nm attempts = Inr operation"
    and "op_done operation" and "op_error operation = Some err"
    and "\<not> truthy (response_uri (response operation))"
  shows "pollOperationSDK_from env nm attempts =
           (\<lparr>videoUrl = [], status = Failed, operationName = Some nm,
             error = Some (or_default (err_message err) ''Operation failed'')\<rparr>, Suc attempts)"
  using assms
  by (subst pollOperationSDK_from.simps) (simp add: status_result_def)

section \<open>The failure paths of the pipeline and the controller's reaction\<close>

lemma failed_with_catch: "failed_with (generateVideo_catch e) e"
  by (simp add: failed_with_def generateVideo_catch_def Let_def)

lemma no_video_message_nonempty: "no_video_message result \<noteq> []"
  by (simp add: no_video_message_def)

lemma generateVideo_paths:
  "generateVideo env config =
     Inr (case snd (submit_video env config) of
            Inl e \<Rightarrow> generateVideo_catch e
          | Inr operation \<Rightarrow>
              if truthy (op_name operation) then
                (case await_operation env operation (string_of (op_name operation)) of
                   Inl e \<Rightarrow> generateVideo_catch e
                 | Inr result \<Rightarrow>
                     if truthy (js_or (response_uri result) (response_sample_uri result)) then
                       (case fetchVideoAsBlob env
                               (string_of (js_or (response_uri result) (response_sample_uri result))) of
                          Inl e \<Rightarrow> generateVideo_catch e
                        | Inr blobUrl \<Rightarrow>
                            \<lparr>videoUrl = blobUrl, status = Completed,
                             operationName = Some (string_of (op_name operation)), error = None\<rparr>)
                     else
                       \<lparr>videoUrl = [], status = Failed,
                        operationName = Some (string_of (op_name operation)),
                        error = Some (no_video_message result)\<rparr>)
              else immediate_result operation)"
  by (simp add: generateVideo_def generateVideo_try_def operation_result_def Let_def
      split: sum.split)

text \<open>
  Claim C4, as the code has it. \<^verbatim>\<open>generateVideo\<close> never throws: it always returns a result,
  and on every failure path the result is tagged failed, with the empty \<^verbatim>\<open>videoUrl\<close> and an
  error message. When both submissions throw, when waiting for the operation throws and
  when fetching the asset throws, the message is the caught exception's message (behind the
  notice that the API is not available when it contains \<^verbatim>\<open>predictLongRunning\<close> or
  \<^verbatim>\<open>404\<close>), so it is empty exactly when the exception's message is empty. When the finished
  operation holds no video (an exhausted poll among the cases) and when the response has
  an unrecognized shape, the message is a fixed text followed by at most 400 characters of
  the response, and is not empty. The result is completed only when an asset was fetched
  or the response held a video at once.
\<close>

theorem generateVideo_never_throws:
  "\<exists>r. generateVideo env config = Inr r \<and>
     (case snd (submit_video env config) of
        Inl e \<Rightarrow> failed_with r e
      | Inr operation \<Rightarrow>
          if truthy (op_name operation) then
            (case await_operation env operation (string_of (op_name operation)) of
               Inl e \<Rightarrow> failed_with r e
             | Inr result \<Rightarrow>
                 if truthy (js_or (response_uri result) (response_sample_uri result)) then
                   (case fetchVideoAsBlob env
                           (string_of (js_or (response_uri result) (response_sample_uri result))) of
                      Inl e \<Rightarrow> failed_with r e
                    | Inr blobUrl \<Rightarrow>
                        status r = Completed \<and> videoUrl r = blobUrl \<and> blobUrl \<noteq> [])
                 else
                   status r = Failed \<and> videoUrl r = [] \<and>
                   error r = Some (no_video_message result) \<and> no_video_message result \<noteq> [])
          else if truthy (first_uri (op_generatedVideos operation)) then
            status r = Completed \<and> videoUrl r = string_of (first_uri (op_generatedVideos operation)) \<and>
            videoUrl r \<noteq> []
          else
            status r = Failed \<and> videoUrl r = [] \<and>
            error r = Some (''Unexpected SDK response: '' @ take 400 (op_json operation))) \<and>
     (status r = Completed \<or>
        (status r = Failed \<and> videoUrl r = [] \<and>
          (\<exists>m. error r = Some m \<and>
             (case generateVideo_try env config of
                Inl e \<Rightarrow>
                  (m = thrown_message e \<or> m = not_available_prefix @ thrown_message e) \<and>
                  (m = [] \<longleftrightarrow> thrown_message e = [])
              | Inr r' \<Rightarrow> m \<noteq> []))))"
proof -
  obtain r where r: "generateVideo env config = Inr r"
    using generateVideo_total by blast
  have paths: "(case snd (submit_video env config) of
        Inl e \<Rightarrow> failed_with r e
      | Inr operation \<Rightarrow>
          if truthy (op_name operation) then
            (case await_operation env operation (string_of (op_name operation)) of
               Inl e \<Rightarrow> failed_with r e
             | Inr result \<Rightarrow>
                 if truthy (js_or (response_uri result) (response_sample_uri result)) then
                   (case fetchVideoAsBlob env
                           (string_of (js_or (response_uri result) (response_sample_uri result))) of
                      Inl e \<Rightarrow> failed_with r e
                    | Inr blobUrl \<Rightarrow>
                        status r = Completed \<and> videoUrl r = blobUrl \<and> blobUrl \<noteq> [])
                 else
                   status r = Failed \<and> videoUrl r = [] \<and>
                   error r = Some (no_video_message result) \<and> no_video_message result \<noteq> [])
          else if truthy (first_uri (op_generatedVideos operation)) then
            status r = Completed \<and> videoUrl r = string_of (first_uri (op_generatedVideos operation)) \<and>
            videoUrl r \<noteq> []
          else
            status r = Failed \<and> videoUrl r = [] \<and>
            error r = Some (''Unexpected SDK response: '' @ take 400 (op_json operation)))"
    using r
    by (auto simp: generateVideo_paths failed_with_catch no_video_message_nonempty
        immediate_result_def Let_def truthy_string_of
        split: sum.split dest: fetchVideoAsBlob_nonempty)
  have rest: "status r = Completed \<or>
        (status r = Failed \<and> videoUrl r = [] \<and>
          (\<exists>m. error r = Some m \<and>
             (case generateVideo_try env config of
                Inl e \<Rightarrow>
                  (m = thrown_message e \<or> m = not_available_prefix @ thrown_message e) \<and>
                  (m = [] \<longleftrightarrow> thrown_message e = [])
              | Inr r' \<Rightarrow> m \<noteq> [])))"
  proof (cases "generateVideo_try env config")
    case (Inl e)
    then show ?thesis
      using r generateVideo_catch_message [of e] by (auto simp: generateVideo_def)
  next
    case (Inr r')
    then show ?thesis
      using r generateVideo_try_status [OF Inr] by (auto simp: generateVideo_def)
  qed
  show ?thesis using r paths rest by blast
qed

text \<open>
  The theorem of claim C4 on two failure paths. Where the operation's \<^verbatim>\<open>wait\<close> gives a
  video and the fetch of the asset answers 403, the result is failed with that message.
  Where the response has neither a name nor a video, the result is failed with the dump of
  the response.
\<close>

theorem generateVideo_never_throws_witness:
  "(\<exists>r. generateVideo
          ((world (\<lambda>r. Inr ((handle_only ''operations/abc'')
              \<lparr>op_wait := Some (Inr (Resp \<lparr>generatedVideos = Some [\<lparr>video = Some \<lparr>uri = Some ''https://v/1''\<rparr>\<rparr>],
                    generateVideoResponse = None, json_text = ''{}''\<rparr>))\<rparr>)) still_running)
            \<lparr>fetch_asset := (\<lambda>url. FetchNotOk ''403'' ''Forbidden'')\<rparr>) sample_config = Inr r \<and>
        status r = Failed \<and> videoUrl r = [] \<and>
        error r = Some ''Failed to fetch video: 403 Forbidden'') \<and>
   (\<exists>r. generateVideo
          (world (\<lambda>r. Inr ((handle_only [])\<lparr>op_name := None\<rparr>)) still_running)
          sample_config = Inr r \<and>
        status r = Failed \<and> videoUrl r = [] \<and>
        error r = Some ''Unexpected SDK response: {}'')"
proof -
  let ?w1 = "(world (\<lambda>r. Inr ((handle_only ''operations/abc'')
              \<lparr>op_wait := Some (Inr (Resp \<lparr>generatedVideos = Some [\<lparr>video = Some \<lparr>uri = Some ''https://v/1''\<rparr>\<rparr>],
                    generateVideoResponse = None, json_text = ''{}''\<rparr>))\<rparr>)) still_running)
            \<lparr>fetch_asset := (\<lambda>url. FetchNotOk ''403'' ''Forbidden'')\<rparr>"
  let ?w2 = "world (\<lambda>r. Inr ((handle_only [])\<lparr>op_name := None\<rparr>)) still_running"
  obtain r1 where r1: "generateVideo ?w1 sample_config = Inr r1"
    and p1: "case snd (submit_video ?w1 sample_config) of
        Inl e \<Rightarrow> failed_with r1 e
      | Inr operation \<Rightarrow>
          if truthy (op_name operation) then
            (case await_operation ?w1 operation (string_of (op_name operation)) of
               Inl e \<Rightarrow> failed_with r1 e
             | Inr result \<Rightarrow>
                 if truthy (js_or (response_uri result) (response_sample_uri result)) then
                   (case fetchVideoAsBlob ?w1
                           (string_of (js_or (response_uri result) (response_sample_uri result))) of
                      Inl e \<Rightarrow> failed_with r1 e
                    | Inr blobUrl \<Rightarrow>
                        status r1 = Completed \<and> videoUrl r1 = blobUrl \<and> blobUrl \<noteq> [])
                 else
                   status r1 = Failed \<and> videoUrl r1 = [] \<and>
                   error r1 = Some (no_video_message result) \<and> no_video_message result \<noteq> [])
          else if truthy (first_uri (op_generatedVideos operation)) then
            status r1 = Completed \<and> videoUrl r1 = string_of (first_uri (op_generatedVideos operation)) \<and>
            videoUrl r1 \<noteq> []
          else
            status r1 = Failed \<and> videoUrl r1 = [] \<and>
            error r1 = Some (''Unexpected SDK response: '' @ take 400 (op_json operation))"
    using generateVideo_never_throws [of ?w1 sample_config] by blast
  have "failed_with r1 (Error ''Failed to fetch video: 403 Forbidden'')"
    using p1
    by (simp add: submit_video_def submit_with_fallback_def world_def handle_only_def truthy_def
        string_of_def await_operation_def js_or_def response_uri_def first_uri_def
        fetchVideoAsBlob_def)
  then have 1: "\<exists>r. generateVideo ?w1 sample_config = Inr r \<and>
        status r = Failed \<and> videoUrl r = [] \<and>
        error r = Some ''Failed to fetch video: 403 Forbidden''"
    using r1 by (simp add: failed_with_def)
  obtain r2 where r2: "generateVideo ?w2 sample_config = Inr r2"
    and p2: "case snd (submit_video ?w2 sample_config) of
        Inl e \<Rightarrow> failed_with r2 e
      | Inr operation \<Rightarrow>
          if truthy (op_name operation) then
            (case await_operation ?w2 operation (string_of (op_name operation)) of
               Inl e \<Rightarrow> failed_with r2 e
             | Inr result \<Rightarrow>
                 if truthy (js_or (response_uri result) (response_sample_uri result)) then
                   (case fetchVideoAsBlob ?w2
                           (string_of (js_or (response_uri result) (response_sample_uri result))) of
                      Inl e \<Rightarrow> failed_with r2 e
                    | Inr blobUrl \<Rightarrow>
                        status r2 = Completed \<and> videoUrl r2 = blobUrl \<and> blobUrl \<noteq> [])
                 else
                   status r2 = Failed \<and> videoUrl r2 = [] \<and>
                   error r2 = Some (no_video_message result) \<and> no_video_message result \<noteq> [])
          else if truthy (first_uri (op_generatedVideos operation)) then
            status r2 = Completed \<and> videoUrl r2 = string_of (first_uri (op_generatedVideos operation)) \<and>
            videoUrl r2 \<noteq> []
          else
            status r2 = Failed \<and> videoUrl r2 = [] \<and>
            error r2 = Some (''Unexpected SDK response: '' @ take 400 (op_json operation))"
    using generateVideo_never_throws [of ?w2 sample_config] by blast
  have "status r2 = Failed \<and> videoUrl r2 = [] \<and> error r2 = Some ''Unexpected SDK response: {}''"
    using p2
    by (simp add: submit_video_def submit_with_fallback_def world_def handle_only_def truthy_def
        first_uri_def)
  then have 2: "\<exists>r. generateVideo ?w2 sample_config = Inr r \<and>
        status r = Failed \<and> videoUrl r = [] \<and>
        error r = Some ''Unexpected SDK response: {}''"
    using r2 by simp
  show ?thesis using 1 2 by blast
qed

lemma run_video_result:
  "video_call q = Inr r \<Longrightarrow> run_video video_call q st = handle_video_result r st"
  by (simp add: run_video_def)

lemma handleGenerateVideo_custom:
  assumes "useCustomPrompt st"
  shows "handleGenerateVideo p script_call video_call st =
           run_video video_call (Some (JStr p))
             (st\<lparr>errorMessage := [], gen_status := S_generating_video,
                 script := Some (nebzmart_script p)\<rparr>)"
  using assms by (simp add: handleGenerateVideo_def Let_def)

lemma handleGenerateVideo_auto:
  assumes "\<not> useCustomPrompt st" and "selectedTheme st = Some theme"
    and "script_call (theme_name theme) (theme_description theme) (components st) 8 = Inr vs"
    and "prompt_of vs = Inr q"
  shows "handleGenerateVideo p script_call video_call st =
           run_video video_call q
             (st\<lparr>errorMessage := [], script := Some vs, gen_status := S_generating_video\<rparr>)"
  using assms by (simp add: handleGenerateVideo_def Let_def)

lemma handle_video_result_fields:
  "videoResult (handle_video_result r st) = Some r \<and>
   gen_status (handle_video_result r st) =
     (case status r of Completed \<Rightarrow> S_completed | Pending \<Rightarrow> S_error | Failed \<Rightarrow> S_error)"
  by (cases "status r") (simp_all add: handle_video_result_def)

text \<open>
  Claim C2. Let \<^verbatim>\<open>handleGenerateVideo\<close> reach the call of the video pipeline, in fixed-ad
  mode or in auto mode after a script was generated, and let the pipeline return the result
  \<open>r\<close>. Then the controller was in the state \<^verbatim>\<open>generating-video\<close> when it made the
  call, and the status it ends in is completed only if \<open>r\<close> is tagged completed and its
  \<^verbatim>\<open>videoUrl\<close> is not empty, and is error whenever \<open>r\<close> is tagged failed or pending. A
  completed result does give the status completed, and the result is kept in the state.
\<close>

theorem controller_status_of_pipeline_result:
  assumes pipeline: "generateVideo env config = Inr r \<or> generateVideo_sdk env config = Inr r"
    and reach:
      "(useCustomPrompt st \<and> q = Some (JStr p) \<and> shown = nebzmart_script p) \<or>
       (\<not> useCustomPrompt st \<and> selectedTheme st = Some theme \<and>
        script_call (theme_name theme) (theme_description theme) (components st) 8 = Inr shown \<and>
        prompt_of shown = Inr q)"
    and answer: "video_call q = Inr r"
  shows "(\<exists>gv. gen_status gv = S_generating_video \<and> script gv = Some shown \<and>
            handleGenerateVideo p script_call video_call st = run_video video_call q gv) \<and>
         (gen_status (handleGenerateVideo p script_call video_call st) = S_completed \<longrightarrow>
            status r = Completed \<and> videoUrl r \<noteq> []) \<and>
         (status r = Failed \<or> status r = Pending \<longrightarrow>
            gen_status (handleGenerateVideo p script_call video_call st) = S_error) \<and>
         (status r = Completed \<longrightarrow>
            gen_status (handleGenerateVideo p script_call video_call st) = S_completed) \<and>
         videoResult (handleGenerateVideo p script_call video_call st) = Some r"
proof -
  have "\<exists>gv. gen_status gv = S_generating_video \<and> script gv = Some shown \<and>
            handleGenerateVideo p script_call video_call st = run_video video_call q gv"
  proof (cases "useCustomPrompt st")
    case True
    let ?gv = "st\<lparr>errorMessage := [], gen_status := S_generating_video, script := Some shown\<rparr>"
    have "handleGenerateVideo p script_call video_call st = run_video video_call q ?gv"
      using True reach handleGenerateVideo_custom [of st p script_call video_call] by simp
    moreover have "gen_status ?gv = S_generating_video \<and> script ?gv = Some shown" by simp
    ultimately show ?thesis by blast
  next
    case False
    let ?gv = "st\<lparr>errorMessage := [], script := Some shown, gen_status := S_generating_video\<rparr>"
    have "handleGenerateVideo p script_call video_call st = run_video video_call q ?gv"
      using False reach handleGenerateVideo_auto [of st theme script_call shown q p video_call]
      by simp
    moreover have "gen_status ?gv = S_generating_video \<and> script ?gv = Some shown" by simp
    ultimately show ?thesis by blast
  qed
  then obtain gv where gv: "gen_status gv = S_generating_video" "script gv = Some shown"
    and step: "handleGenerateVideo p script_call video_call st = run_video video_call q gv"
    by blast
  have fin: "handleGenerateVideo p script_call video_call st = handle_video_result r gv"
    using step answer by (simp add: run_video_result)
  have inv: "result_inv r"
    using pipeline generateVideo_inv generateVideo_sdk_inv by blast
  have ex: "\<exists>gv. gen_status gv = S_generating_video \<and> script gv = Some shown \<and>
            handleGenerateVideo p script_call video_call st = run_video video_call q gv"
    using gv step by blast
  have rest: "(gen_status (handleGenerateVideo p script_call video_call st) = S_completed \<longrightarrow>
            status r = Completed \<and> videoUrl r \<noteq> []) \<and>
         (status r = Failed \<or> status r = Pending \<longrightarrow>
            gen_status (handleGenerateVideo p script_call video_call st) = S_error) \<and>
         (status r = Completed \<longrightarrow>
            gen_status (handleGenerateVideo p script_call video_call st) = S_completed) \<and>
         videoResult (handleGenerateVideo p script_call video_call st) = Some r"
    using inv handle_video_result_fields [of r gv]
    by (cases "status r") (simp_all add: fin result_inv_def)
  show ?thesis using ex rest by blast
qed

text \<open>
  The theorem of claim C2 from the initial state, which is in fixed-ad mode: with a provider
  that answers at once with a video the status ends completed, and with a provider whose
  submissions throw it ends error.
\<close>

theorem controller_status_of_pipeline_result_witness:
  "useCustomPrompt initial_state \<and>
   generateVideo (world (\<lambda>r. Inr (immediate_video ''https://v/1'')) still_running) sample_config =
     Inr \<lparr>videoUrl = ''https://v/1'', status = Completed, operationName = None, error = None\<rparr> \<and>
   gen_status (handleGenerateVideo ''P'' (\<lambda>n d c s. Inl (Error ''unused''))
      (\<lambda>q. generateVideo (world (\<lambda>r. Inr (immediate_video ''https://v/1'')) still_running)
             sample_config) initial_state) = S_completed \<and>
   generateVideo (world (\<lambda>r. Inl (Error ''503'')) still_running) sample_config =
     Inr \<lparr>videoUrl = [], status = Failed, operationName = None, error = Some ''503''\<rparr> \<and>
   gen_status (handleGenerateVideo ''P'' (\<lambda>n d c s. Inl (Error ''unused''))
      (\<lambda>q. generateVideo (world (\<lambda>r. Inl (Error ''503'')) still_running) sample_config)
      initial_state) = S_error"
proof -
  let ?ok = "\<lparr>videoUrl = ''https://v/1'', status = Completed, operationName = None, error = None\<rparr>"
  let ?ko = "\<lparr>videoUrl = [], status = Failed, operationName = None, error = Some ''503''\<rparr>"
  let ?wok = "world (\<lambda>r. Inr (immediate_video ''https://v/1'')) still_running"
  let ?wko = "world (\<lambda>r. Inl (Error ''503'')) still_running"
  let ?sc = "\<lambda>(n::string) (d::string) (c::components_value) (s::nat). (Inl (Error ''unused'') :: thrown + json)"
  have u: "useCustomPrompt initial_state" by (simp add: initial_state_def)
  have a: "generateVideo ?wok sample_config = Inr ?ok"
    by (simp add: generateVideo_def generateVideo_try_def submit_video_def submit_with_fallback_def
        world_simps immediate_video_def truthy_def string_of_def immediate_result_def
        first_uri_def Let_def)
  have b: "generateVideo ?wko sample_config = Inr ?ko"
    by (simp add: generateVideo_def generateVideo_try_def submit_video_def submit_with_fallback_def
        world_simps generateVideo_catch_def Let_def)
  have reach: "(useCustomPrompt initial_state \<and> Some (JStr ''P'') = Some (JStr ''P'') \<and>
        nebzmart_script ''P'' = nebzmart_script ''P'') \<or>
       (\<not> useCustomPrompt initial_state \<and> selectedTheme initial_state = Some undefined \<and>
        ?sc (theme_name undefined) (theme_description undefined) (components initial_state) 8 =
          Inr (nebzmart_script ''P'') \<and>
        prompt_of (nebzmart_script ''P'') = Inr (Some (JStr ''P'')))"
    using u by simp
  have "status ?ok = Completed \<longrightarrow>
      gen_status (handleGenerateVideo ''P'' ?sc (\<lambda>q. generateVideo ?wok sample_config)
        initial_state) = S_completed"
    using controller_status_of_pipeline_result
      [of ?wok sample_config ?ok initial_state "Some (JStr ''P'')" "''P''" "nebzmart_script ''P''"
          undefined ?sc "\<lambda>q. generateVideo ?wok sample_config",
       OF disjI1 [OF a] reach a]
    by blast
  then have c: "gen_status (handleGenerateVideo ''P'' ?sc (\<lambda>q. generateVideo ?wok sample_config)
      initial_state) = S_completed"
    by simp
  have "status ?ko = Failed \<or> status ?ko = Pending \<longrightarrow>
      gen_status (handleGenerateVideo ''P'' ?sc (\<lambda>q. generateVideo ?wko sample_config)
        initial_state) = S_error"
    using controller_status_of_pipeline_result
      [of ?wko sample_config ?ko initial_state "Some (JStr ''P'')" "''P''" "nebzmart_script ''P''"
          undefined ?sc "\<lambda>q. generateVideo ?wko sample_config",
       OF disjI1 [OF b] reach b]
    by blast
  then have d: "gen_status (handleGenerateVideo ''P'' ?sc (\<lambda>q. generateVideo ?wko sample_config)
      initial_state) = S_error"
    by simp
  show ?thesis using u a b c d by simp
qed

end
